theory Spec2Isabelle
  imports Complex_Main
begin

section \<open>Values, errors and arrays\<close>

text \<open>
  Python floats are idealised as real numbers. Every exception the source can raise is a
  value of \<open>error\<close>; an exception raised inside one of the two collaborators imported from
  the Propagator package (\<open>propagate_cr3bp\<close>, \<open>ssdc\<close>) is whatever error value that
  collaborator returns, \<open>External\<close> standing for one that is not listed by name.
\<close>

datatype error =
    IndexError
  | ValueError
  | UnboundLocalError string
  | ZeroDivisionError
  | NotANumber
  | External string

definition bind_e :: "error + 'a \<Rightarrow> ('a \<Rightarrow> error + 'b) \<Rightarrow> error + 'b" where
  "bind_e m f = (case m of Inl e \<Rightarrow> Inl e | Inr a \<Rightarrow> f a)"

text \<open>\<open>a[i]\<close> for a non-negative constant index: IndexError out of range.\<close>

definition getitem :: "'a list \<Rightarrow> nat \<Rightarrow> error + 'a" where
  "getitem a i = (if i < length a then Inr (a ! i) else Inl IndexError)"

text \<open>
  The state is a numpy array that the caller passes by reference. Arrays live in a heap,
  a variable that names an array holds its address, and \<open>state[i] = v\<close> updates the heap.
\<close>

type_synonym addr = nat
type_synonym heap = "addr \<Rightarrow> real list"

definition setitem :: "heap \<Rightarrow> addr \<Rightarrow> nat \<Rightarrow> real \<Rightarrow> error + heap" where
  "setitem h a i v = (if i < length (h a) then Inr (h(a := (h a)[i := v])) else Inl IndexError)"

text \<open>\<open>numpy.linalg.norm\<close> of a one-dimensional array.\<close>

definition la_norm :: "real list \<Rightarrow> real" where
  "la_norm v = sqrt (sum_list (map (\<lambda>x. x * x) v))"

section \<open>The collaborators' interface\<close>

text \<open>
  \<open>propagate_cr3bp\<close> returns a dictionary of which the routine reads three entries:
  \<open>statef\<close>, \<open>dstatef\<close> (one-dimensional arrays) and \<open>stms\<close>, a two-dimensional array
  given here as the list of its rows (all of one length), one row per entry of the
  flattened state-transition matrix and one column per time step. Neither collaborator is
  part of these sources: both are parameters of the model, functions of the contents of
  their arguments that write to no array of the caller and may raise.
\<close>

record propout =
  statef :: "real list"
  stms :: "real list list"
  dstatef :: "real list"

type_synonym propagator = "real \<Rightarrow> real list \<Rightarrow> real \<Rightarrow> error + propout"
type_synonym solver = "real list \<Rightarrow> real list \<Rightarrow> real list list \<Rightarrow> error + real list"

section \<open>ssdc_periodic_xzplane\<close>

text \<open>What the routine prints.\<close>

datatype msg =
    Warning
  | Cleared nat real
  | Current nat real

text \<open>
  The variables of the routine that live across iterations, with the heap and the printed
  output. \<open>xi\<close> and \<open>df\<close> are unbound (\<open>None\<close>) until a branch assigns them.
\<close>

record locals =
  heap :: heap
  out :: "msg list"
  thalf :: real
  xi :: "real list option"
  df :: "real list list option"
  conv_flag :: int

text \<open>Lines 40-43: the free-variable vector.\<close>

definition read_xi :: "string \<Rightarrow> real list \<Rightarrow> real \<Rightarrow> real list option \<Rightarrow> error + real list option" where
  "read_xi fix st th old =
     (if fix = ''z'' then
        bind_e (getitem st 0) (\<lambda>x0.
        bind_e (getitem st 4) (\<lambda>vy0.
        Inr (Some [x0, vy0, th])))
      else if fix = ''period'' then
        bind_e (getitem st 0) (\<lambda>x0.
        bind_e (getitem st 2) (\<lambda>z0.
        bind_e (getitem st 4) (\<lambda>vy0.
        Inr (Some [x0, z0, vy0]))))
      else Inr old)"

text \<open>Line 45: the residual.\<close>

definition residual :: "propout \<Rightarrow> error + real list" where
  "residual po =
     bind_e (getitem (statef po) 1) (\<lambda>yf.
     bind_e (getitem (statef po) 3) (\<lambda>vxf.
     bind_e (getitem (statef po) 5) (\<lambda>vzf.
     Inr [yf, vxf, vzf])))"

text \<open>
  Line 47: \<open>propout["stms"][:,-1]\<close> is the last column (IndexError when the array has no
  column), and \<open>np.reshape(_, (6,6))\<close> lays its 36 entries out row by row (ValueError for
  any other size).
\<close>

definition last_column :: "real list list \<Rightarrow> error + real list" where
  "last_column a = (if \<exists>r \<in> set a. r = [] then Inl IndexError else Inr (map last a))"

definition reshape66 :: "real list \<Rightarrow> error + real list list" where
  "reshape66 c =
     (if length c = 36 then Inr (map (\<lambda>i. map (\<lambda>j. c ! (6 * i + j)) [0..<6]) [0..<6])
      else Inl ValueError)"

definition final_stm :: "propout \<Rightarrow> error + real list list" where
  "final_stm po = bind_e (last_column (stms po)) reshape66"

text \<open>\<open>stm[i,j]\<close> on the 6 by 6 matrix, for constant indices below 6.\<close>

definition at2 :: "real list list \<Rightarrow> nat \<Rightarrow> nat \<Rightarrow> real" where
  "at2 m i j = m ! i ! j"

text \<open>Lines 49-56: the Jacobian.\<close>

definition jacobian :: "string \<Rightarrow> real list list \<Rightarrow> propout \<Rightarrow> real list list option \<Rightarrow> error + real list list option" where
  "jacobian fix stm po old =
     (if fix = ''z'' then
        bind_e (getitem (dstatef po) 1) (\<lambda>d1.
        bind_e (getitem (dstatef po) 3) (\<lambda>d3.
        bind_e (getitem (dstatef po) 5) (\<lambda>d5.
        Inr (Some [[at2 stm 1 0, at2 stm 1 4, d1],
                   [at2 stm 3 0, at2 stm 3 4, d3],
                   [at2 stm 5 0, at2 stm 5 4, d5]]))))
      else if fix = ''period'' then
        Inr (Some [[at2 stm 1 0, at2 stm 1 2, at2 stm 1 4],
                   [at2 stm 3 0, at2 stm 3 2, at2 stm 3 4],
                   [at2 stm 5 0, at2 stm 5 2, at2 stm 5 4]])
      else Inr old)"

text \<open>Line 58: the arguments are evaluated left to right, then the solver is called.\<close>

definition call_ssdc :: "solver \<Rightarrow> real list option \<Rightarrow> real list \<Rightarrow> real list list option \<Rightarrow> error + real list" where
  "call_ssdc ssdc x ferr d =
     (case x of
        None \<Rightarrow> Inl (UnboundLocalError ''xi'')
      | Some xv \<Rightarrow>
          (case d of
             None \<Rightarrow> Inl (UnboundLocalError ''df'')
           | Some dv \<Rightarrow> ssdc xv ferr dv))"

text \<open>
  Lines 61-64: the right-hand side tuple is built first, then the targets are assigned
  from left to right.
\<close>

definition write_back :: "string \<Rightarrow> heap \<Rightarrow> addr \<Rightarrow> real \<Rightarrow> real list \<Rightarrow> error + heap \<times> real" where
  "write_back fix h state th xii =
     (if fix = ''z'' then
        bind_e (getitem xii 0) (\<lambda>a.
        bind_e (getitem xii 1) (\<lambda>b.
        bind_e (getitem xii 2) (\<lambda>c.
        bind_e (setitem h state 0 a) (\<lambda>h1.
        bind_e (setitem h1 state 4 b) (\<lambda>h2.
        Inr (h2, c))))))
      else if fix = ''period'' then
        bind_e (getitem xii 0) (\<lambda>a.
        bind_e (getitem xii 1) (\<lambda>b.
        bind_e (getitem xii 2) (\<lambda>c.
        bind_e (setitem h state 0 a) (\<lambda>h1.
        bind_e (setitem h1 state 2 b) (\<lambda>h2.
        bind_e (setitem h2 state 4 c) (\<lambda>h3.
        Inr (h3, th)))))))
      else Inr (h, th))"

text \<open>
  Lines 39-76: one pass through the loop body. The result is the error raised, or whether
  the loop was left by \<open>break\<close> together with the variables after the pass. Nothing is
  written or printed before line 61, lines 61-64 read their whole right-hand side before
  they write, and the writes cannot fail once the reads of lines 40-43 have succeeded
  (lemma \<open>write_back_after_read\<close>), so an error leaves the heap and the output as they
  were when the pass began.
\<close>

definition iter_body ::
  "propagator \<Rightarrow> solver \<Rightarrow> real \<Rightarrow> addr \<Rightarrow> string \<Rightarrow> real \<Rightarrow> bool \<Rightarrow> nat \<Rightarrow> locals \<Rightarrow> error + bool \<times> locals" where
  "iter_body propagate_cr3bp ssdc mu state fix tolDC message iteration L =
     bind_e (propagate_cr3bp mu (heap L state) (thalf L)) (\<lambda>po.
     bind_e (read_xi fix (heap L state) (thalf L) (xi L)) (\<lambda>xi1.
     bind_e (residual po) (\<lambda>ferr.
     bind_e (final_stm po) (\<lambda>stm.
     bind_e (jacobian fix stm po (df L)) (\<lambda>df1.
     bind_e (call_ssdc ssdc xi1 ferr df1) (\<lambda>xii.
     bind_e (write_back fix (heap L) state (thalf L) xii) (\<lambda>(h1, thalf1).
     if la_norm ferr < tolDC then
       Inr (True,
            L\<lparr>heap := h1,
              out := out L @ (if message then [Cleared (iteration + 1) (la_norm ferr)] else []),
              thalf := thalf1, xi := xi1, df := df1, conv_flag := 1\<rparr>)
     else
       Inr (False,
            L\<lparr>heap := h1,
              out := out L @ (if message then [Current (iteration + 1) (la_norm ferr)] else []),
              thalf := thalf1, xi := Some xii, df := df1\<rparr>))))))))"

text \<open>
  Line 37: \<open>for iteration in range(iter_max)\<close>, as a recursion on the number of passes
  left. The result is the variables when the loop stops and the error, if one was raised.
\<close>

fun ssdc_loop ::
  "propagator \<Rightarrow> solver \<Rightarrow> real \<Rightarrow> addr \<Rightarrow> string \<Rightarrow> real \<Rightarrow> bool \<Rightarrow> nat \<Rightarrow> nat \<Rightarrow> locals \<Rightarrow> error option \<times> locals" where
  "ssdc_loop propagate_cr3bp ssdc mu state fix tolDC message 0 iteration L = (None, L)"
| "ssdc_loop propagate_cr3bp ssdc mu state fix tolDC message (Suc n) iteration L =
     (case iter_body propagate_cr3bp ssdc mu state fix tolDC message iteration L of
        Inl e \<Rightarrow> (Some e, L)
      | Inr (brk, L') \<Rightarrow>
          if brk then (None, L')
          else ssdc_loop propagate_cr3bp ssdc mu state fix tolDC message n (Suc iteration) L')"

text \<open>
  Lines 34-37: \<open>state\<close> is bound to the array \<open>state0\<close> names (no copy is made), the
  half-period and the flag are initialised, and the loop makes at most \<open>k\<close> passes.
  \<open>printed\<close> is what has been printed so far.
\<close>

definition passes ::
  "propagator \<Rightarrow> solver \<Rightarrow> heap \<Rightarrow> real \<Rightarrow> addr \<Rightarrow> real \<Rightarrow> string \<Rightarrow> real \<Rightarrow> bool \<Rightarrow> msg list \<Rightarrow> nat
     \<Rightarrow> error option \<times> locals" where
  "passes propagate_cr3bp ssdc h mu state0 period0 fix tolDC message printed k =
     (let state = state0 in
      ssdc_loop propagate_cr3bp ssdc mu state fix tolDC message k 0
        \<lparr>heap = h, out = printed, thalf = period0 / 2, xi = None, df = None, conv_flag = 0\<rparr>)"

text \<open>
  Lines 33-79: \<open>range(iter_max)\<close> is empty for \<open>iter_max \<le> 0\<close>; the result is the final
  heap and output with the error or the returned triple.
\<close>

definition ssdc_main ::
  "propagator \<Rightarrow> solver \<Rightarrow> heap \<Rightarrow> real \<Rightarrow> addr \<Rightarrow> real \<Rightarrow> string \<Rightarrow> real \<Rightarrow> int \<Rightarrow> bool \<Rightarrow> msg list
     \<Rightarrow> (heap \<times> msg list) \<times> (error + real \<times> addr \<times> int)" where
  "ssdc_main propagate_cr3bp ssdc h mu state0 period0 fix tolDC iter_max message printed =
     (case passes propagate_cr3bp ssdc h mu state0 period0 fix tolDC message printed (nat iter_max) of
        (Some e, L) \<Rightarrow> ((heap L, out L), Inl e)
      | (None, L) \<Rightarrow> ((heap L, out L), Inr (thalf L * 2, state0, conv_flag L)))"

text \<open>Lines 30-31: the check of the initial state, which only prints.\<close>

definition entry_check :: "heap \<Rightarrow> addr \<Rightarrow> error + msg list" where
  "entry_check h state0 =
     bind_e (getitem (h state0) 1) (\<lambda>y0.
     Inr (if \<bar>y0\<bar> > 1 / 10 ^ 9 then [Warning] else []))"

definition ssdc_periodic_xzplane ::
  "propagator \<Rightarrow> solver \<Rightarrow> heap \<Rightarrow> real \<Rightarrow> addr \<Rightarrow> real \<Rightarrow> string \<Rightarrow> real \<Rightarrow> int \<Rightarrow> bool
     \<Rightarrow> (heap \<times> msg list) \<times> (error + real \<times> addr \<times> int)" where
  "ssdc_periodic_xzplane propagate_cr3bp ssdc h mu state0 period0 fix tolDC iter_max message =
     (case entry_check h state0 of
        Inl e \<Rightarrow> ((h, []), Inl e)
      | Inr printed \<Rightarrow>
          ssdc_main propagate_cr3bp ssdc h mu state0 period0 fix tolDC iter_max message printed)"

section \<open>Keplerian elements\<close>

text \<open>
  The functions of \<open>_conicElements.py\<close> that \<open>get_period\<close> needs. They are compiled by
  numba, whose default error model raises ZeroDivisionError for a division of scalars by
  zero, while a division of an array by a scalar follows numpy and yields NaN for 0/0, as
  \<open>np.sqrt\<close> does for a negative argument. A result that is NaN is the value
  \<open>Inl NotANumber\<close> here: it is not an exception, and every later operation keeps it. An
  index out of range is given Python's IndexError.
\<close>

definition py_div :: "real \<Rightarrow> real \<Rightarrow> error + real" where
  "py_div a b = (if b = 0 then Inl ZeroDivisionError else Inr (a / b))"

definition np_sqrt :: "real \<Rightarrow> error + real" where
  "np_sqrt x = (if x < 0 then Inl NotANumber else Inr (sqrt x))"

text \<open>\<open>np.cross\<close> of two arrays of three components.\<close>

definition cross :: "real list \<Rightarrow> real list \<Rightarrow> real list" where
  "cross a b =
     [a ! 1 * b ! 2 - a ! 2 * b ! 1,
      a ! 2 * b ! 0 - a ! 0 * b ! 2,
      a ! 0 * b ! 1 - a ! 1 * b ! 0]"

text \<open>The first two lines of every function: the position and the velocity.\<close>

definition position_velocity :: "real list \<Rightarrow> error + real list \<times> real list" where
  "position_velocity state =
     bind_e (getitem state 0) (\<lambda>x.
     bind_e (getitem state 1) (\<lambda>y.
     bind_e (getitem state 2) (\<lambda>z.
     bind_e (getitem state 3) (\<lambda>vx.
     bind_e (getitem state 4) (\<lambda>vy.
     bind_e (getitem state 5) (\<lambda>vz.
     Inr ([x, y, z], [vx, vy, vz])))))))"

definition get_eccentricity :: "real list \<Rightarrow> real \<Rightarrow> error + real list" where
  "get_eccentricity state mu =
     bind_e (position_velocity state) (\<lambda>(r, v).
     let h = cross r v in
     bind_e (py_div 1 mu) (\<lambda>k.
     if la_norm r = 0 then Inl NotANumber
     else Inr (map2 (-) (map (\<lambda>c. k * c) (cross v h)) (map (\<lambda>c. c / la_norm r) r))))"

definition get_semiMajorAxis :: "real list \<Rightarrow> real \<Rightarrow> error + real" where
  "get_semiMajorAxis state mu =
     bind_e (position_velocity state) (\<lambda>(r, v).
     let h = la_norm (cross r v) in
     bind_e (get_eccentricity state mu) (\<lambda>ecc.
     let e = la_norm ecc in
     py_div (h ^ 2) (mu * (1 - e ^ 2))))"

definition get_period :: "real list \<Rightarrow> real \<Rightarrow> error + real" where
  "get_period state mu =
     bind_e (get_semiMajorAxis state mu) (\<lambda>a.
     if a < 0 then Inr (- 1)
     else bind_e (np_sqrt (a ^ 3 / mu)) (\<lambda>s. Inr (2 * pi * s)))"

section \<open>A model problem\<close>

text \<open>
  A propagator and a solver on which the routine can be run by hand: the residual is
  \<open>(x - 2, 0, 0)\<close> for a state whose first component is \<open>x\<close>, entry \<open>k\<close> of the flattened
  state-transition matrix is \<open>k\<close> at the last of two time steps, and the solver subtracts
  the residual from the free variables.
\<close>

definition toy_propagator :: propagator where
  "toy_propagator mu st t =
     Inr \<lparr>statef = [0, st ! 0 - 2, 0, 0, 0, 0],
          stms = map (\<lambda>k. [0, real k]) [0..<36],
          dstatef = [0, 1, 0, 2, 0, 3]\<rparr>"

definition toy_solver :: solver where
  "toy_solver x ferr d = Inr (map2 (-) x ferr)"

text \<open>A heap in which every array is the state \<open>(1, 0, 0, 0, 1, 0)\<close>.\<close>

definition toy_heap :: heap where
  "toy_heap = (\<lambda>a. [1, 0, 0, 0, 1, 0])"

section \<open>Auxiliary facts\<close>

lemma bind_e_Inl [simp]: "bind_e (Inl e) f = Inl e"
  by (simp add: bind_e_def)

lemma bind_e_Inr [simp]: "bind_e (Inr a) f = f a"
  by (simp add: bind_e_def)

lemma bind_e_eq_Inr: "bind_e m f = Inr b \<longleftrightarrow> (\<exists>a. m = Inr a \<and> f a = Inr b)"
  by (cases m) simp_all

lemma bind_e_eq_Inl: "bind_e m f = Inl e \<longleftrightarrow> m = Inl e \<or> (\<exists>a. m = Inr a \<and> f a = Inl e)"
  by (cases m) simp_all

lemma iter_body_Inr:
  assumes "iter_body P S mu state fix tolDC message it L = Inr (brk, L')"
  obtains po xi1 ferr stm df1 xii h1 th1 where
    "P mu (heap L state) (thalf L) = Inr po"
    "read_xi fix (heap L state) (thalf L) (xi L) = Inr xi1"
    "residual po = Inr ferr"
    "final_stm po = Inr stm"
    "jacobian fix stm po (df L) = Inr df1"
    "call_ssdc S xi1 ferr df1 = Inr xii"
    "write_back fix (heap L) state (thalf L) xii = Inr (h1, th1)"
    "brk = (la_norm ferr < tolDC)"
    "L' = (if la_norm ferr < tolDC
           then L\<lparr>heap := h1,
                  out := out L @ (if message then [Cleared (it + 1) (la_norm ferr)] else []),
                  thalf := th1, xi := xi1, df := df1, conv_flag := 1\<rparr>
           else L\<lparr>heap := h1,
                  out := out L @ (if message then [Current (it + 1) (la_norm ferr)] else []),
                  thalf := th1, xi := Some xii, df := df1\<rparr>)"
  using assms unfolding iter_body_def bind_e_eq_Inr
  by (auto split: if_splits prod.splits)


lemma iter_body_flag:
  assumes "iter_body P S mu state fix tolDC message it L = Inr (brk, L')"
  shows "conv_flag L' = (if brk then 1 else conv_flag L)"
  using assms by (elim iter_body_Inr) (simp split: if_splits)

lemma ssdc_loop_snoc:
  assumes "conv_flag L = 0"
  shows "ssdc_loop P S mu state fix tolDC message (Suc n) it L =
         (case ssdc_loop P S mu state fix tolDC message n it L of
            (Some e, L1) \<Rightarrow> (Some e, L1)
          | (None, L1) \<Rightarrow>
              if conv_flag L1 = 1 then (None, L1)
              else (case iter_body P S mu state fix tolDC message (it + n) L1 of
                      Inl e \<Rightarrow> (Some e, L1)
                    | Inr (brk, L2) \<Rightarrow> (None, L2)))"
  using assms
proof (induction n arbitrary: it L)
  case 0
  then show ?case by (simp split: sum.splits prod.splits)
next
  case (Suc n)
  show ?case
  proof (cases "iter_body P S mu state fix tolDC message it L")
    case (Inl e)
    then show ?thesis by simp
  next
    case (Inr r)
    obtain brk L' where r: "r = (brk, L')" by (cases r)
    have fl: "conv_flag L' = (if brk then 1 else 0)"
      using iter_body_flag [OF Inr [unfolded r]] Suc.prems by simp
    show ?thesis
    proof (cases brk)
      case True
      then show ?thesis using Inr r fl by simp
    next
      case False
      then have fl0: "conv_flag L' = 0" using fl by simp
      have s1: "ssdc_loop P S mu state fix tolDC message (Suc (Suc n)) it L =
                ssdc_loop P S mu state fix tolDC message (Suc n) (Suc it) L'"
        using Inr r False by (simp del: ssdc_loop.simps add: ssdc_loop.simps(2) [of _ _ _ _ _ _ _ "Suc n"])
      have s2: "ssdc_loop P S mu state fix tolDC message (Suc n) it L =
                ssdc_loop P S mu state fix tolDC message n (Suc it) L'"
        using Inr r False by simp
      show ?thesis
        unfolding s1 s2 Suc.IH [OF fl0] add_Suc add_Suc_right by (rule refl)
    qed
  qed
qed


lemma ssdc_loop_flag_range:
  assumes "conv_flag L = 0"
    and "ssdc_loop P S mu state fix tolDC message n it L = (r, L')"
  shows "conv_flag L' = 0 \<or> conv_flag L' = 1"
  using assms
proof (induction n arbitrary: it L)
  case 0
  then show ?case by simp
next
  case (Suc n)
  show ?case
  proof (cases "iter_body P S mu state fix tolDC message it L")
    case (Inl e)
    then show ?thesis using Suc.prems by simp
  next
    case (Inr p)
    obtain brk L1 where p: "p = (brk, L1)" by (cases p)
    note fl = iter_body_flag [OF Inr [unfolded p]]
    show ?thesis
    proof (cases brk)
      case True
      then show ?thesis using Suc.prems Inr p fl by simp
    next
      case False
      then have "conv_flag L1 = 0" using fl Suc.prems by simp
      moreover have "ssdc_loop P S mu state fix tolDC message n (Suc it) L1 = (r, L')"
        using Suc.prems Inr p False by simp
      ultimately show ?thesis by (rule Suc.IH)
    qed
  qed
qed

lemma ssdc_loop_stops:
  assumes "conv_flag L = 0"
    and "ssdc_loop P S mu state fix tolDC message k it L = (r, Lk)"
    and "r \<noteq> None \<or> conv_flag Lk = 1"
    and "k \<le> n"
  shows "ssdc_loop P S mu state fix tolDC message n it L = (r, Lk)"
  using assms(4)
proof (induction n)
  case 0
  then show ?case using assms(2) by simp
next
  case (Suc n)
  show ?case
  proof (cases "k = Suc n")
    case True
    then show ?thesis using assms(2) by simp
  next
    case False
    then have "ssdc_loop P S mu state fix tolDC message n it L = (r, Lk)"
      using Suc by simp
    then show ?thesis
      using assms(3) unfolding ssdc_loop_snoc [OF assms(1)] by (cases r) auto
  qed
qed

lemma ssdc_loop_prefix:
  assumes "conv_flag L = 0"
    and "ssdc_loop P S mu state fix tolDC message n it L = (None, L')"
    and "conv_flag L' = 0"
    and "k \<le> n"
  obtains Lk where "ssdc_loop P S mu state fix tolDC message k it L = (None, Lk)"
    and "conv_flag Lk = 0"
proof -
  obtain r Lk where k: "ssdc_loop P S mu state fix tolDC message k it L = (r, Lk)"
    by (cases "ssdc_loop P S mu state fix tolDC message k it L")
  have "\<not> (r \<noteq> None \<or> conv_flag Lk = 1)"
  proof
    assume "r \<noteq> None \<or> conv_flag Lk = 1"
    from ssdc_loop_stops [OF assms(1) k this assms(4)] assms(2,3) this
    show False by auto
  qed
  moreover have "conv_flag Lk = 0 \<or> conv_flag Lk = 1"
    using ssdc_loop_flag_range [OF assms(1) k] .
  ultimately show ?thesis using that k by auto
qed

lemma ssdc_loop_pass:
  assumes "conv_flag L = 0"
    and "ssdc_loop P S mu state fix tolDC message k it L = (None, Lk)"
    and "conv_flag Lk = 0"
    and "ssdc_loop P S mu state fix tolDC message (Suc k) it L = (None, L2)"
  shows "iter_body P S mu state fix tolDC message (it + k) Lk = Inr (conv_flag L2 = 1, L2)"
proof (cases "iter_body P S mu state fix tolDC message (it + k) Lk")
  case (Inl e)
  then show ?thesis
    using assms(2,3,4) unfolding ssdc_loop_snoc [OF assms(1)] by simp
next
  case (Inr p)
  obtain brk L1 where p: "p = (brk, L1)" by (cases p)
  have "L1 = L2"
    using assms(2,3,4) Inr p unfolding ssdc_loop_snoc [OF assms(1)] by simp
  moreover have "conv_flag L1 = (if brk then 1 else 0)"
    using iter_body_flag [OF Inr [unfolded p]] assms(3) by simp
  ultimately show ?thesis using Inr p by auto
qed

lemma ssdc_loop_break:
  assumes "conv_flag L = 0"
    and "ssdc_loop P S mu state fix tolDC message n it L = (None, L')"
    and "conv_flag L' = 1"
  obtains k Lk where "k < n"
    and "ssdc_loop P S mu state fix tolDC message k it L = (None, Lk)"
    and "conv_flag Lk = 0"
    and "iter_body P S mu state fix tolDC message (it + k) Lk = Inr (True, L')"
proof -
  have "\<exists>k Lk. k < n \<and> ssdc_loop P S mu state fix tolDC message k it L = (None, Lk)
          \<and> conv_flag Lk = 0
          \<and> iter_body P S mu state fix tolDC message (it + k) Lk = Inr (True, L')"
    using assms(2)
  proof (induction n)
    case 0
    then show ?case using assms(1,3) by simp
  next
    case (Suc n)
    obtain r L1 where n: "ssdc_loop P S mu state fix tolDC message n it L = (r, L1)"
      by (cases "ssdc_loop P S mu state fix tolDC message n it L")
    have r: "r = None"
      using Suc.prems n unfolding ssdc_loop_snoc [OF assms(1)] by (cases r) auto
    show ?case
    proof (cases "conv_flag L1 = 1")
      case True
      then have "L1 = L'"
        using Suc.prems n r unfolding ssdc_loop_snoc [OF assms(1)] by simp
      with Suc.IH n r show ?thesis by (metis less_Suc_eq)
    next
      case False
      then have f0: "conv_flag L1 = 0"
        using ssdc_loop_flag_range [OF assms(1) n] by simp
      from ssdc_loop_pass [OF assms(1) n [unfolded r] f0 Suc.prems] assms(3)
      have "iter_body P S mu state fix tolDC message (it + n) L1 = Inr (True, L')" by simp
      with n r f0 show ?thesis by blast
    qed
  qed
  then show ?thesis using that by blast
qed

lemma entry_check_ok:
  "1 < length (h state0) \<Longrightarrow>
   entry_check h state0 = Inr (if \<bar>h state0 ! 1\<bar> > 1 / 10 ^ 9 then [Warning] else [])"
  by (simp add: entry_check_def getitem_def)

lemma run_returns:
  assumes "snd (ssdc_periodic_xzplane P S h mu state0 period0 fix tolDC iter_max message) = Inr (period, st, flag)"
  obtains printed L where
    "entry_check h state0 = Inr printed"
    "passes P S h mu state0 period0 fix tolDC message printed (nat iter_max) = (None, L)"
    "ssdc_periodic_xzplane P S h mu state0 period0 fix tolDC iter_max message =
       ((heap L, out L), Inr (thalf L * 2, state0, conv_flag L))"
    "period = thalf L * 2" "st = state0" "flag = conv_flag L"
proof (cases "entry_check h state0")
  case (Inl e)
  then show ?thesis using assms by (simp add: ssdc_periodic_xzplane_def)
next
  case (Inr printed)
  obtain r L where ps: "passes P S h mu state0 period0 fix tolDC message printed (nat iter_max) = (r, L)"
    by (cases "passes P S h mu state0 period0 fix tolDC message printed (nat iter_max)")
  show ?thesis
  proof (cases r)
    case None
    have run: "ssdc_periodic_xzplane P S h mu state0 period0 fix tolDC iter_max message =
       ((heap L, out L), Inr (thalf L * 2, state0, conv_flag L))"
      using Inr ps None by (simp add: ssdc_periodic_xzplane_def ssdc_main_def)
    have "Inr (period, st, flag) = (Inr (thalf L * 2, state0, conv_flag L) :: error + real \<times> addr \<times> int)"
      using assms unfolding run snd_conv by (rule sym)
    then have "period = thalf L * 2" "st = state0" "flag = conv_flag L"
      unfolding sum.inject prod.inject by blast+
    with Inr ps [unfolded None] run show ?thesis by (rule that)
  next
    case (Some e)
    then show ?thesis
      using assms Inr ps by (simp add: ssdc_periodic_xzplane_def ssdc_main_def)
  qed
qed

lemma call_ssdc_Inr:
  assumes "call_ssdc S x ferr d = Inr xii"
  obtains xv dv where "x = Some xv" "d = Some dv" "S xv ferr dv = Inr xii"
  using assms unfolding call_ssdc_def by (auto split: option.splits)

lemma final_stm_toy:
  "final_stm \<lparr>statef = sf, stms = map (\<lambda>k. [0, real k]) [0..<36], dstatef = ds\<rparr> =
   Inr (map (\<lambda>i. map (\<lambda>j. real (6 * i + j)) [0..<6]) [0..<6])"
  by (auto simp add: final_stm_def last_column_def reshape66_def comp_def)

lemma la_norm_x00 [simp]: "la_norm [x, 0, 0] = \<bar>x\<bar>"
  by (simp add: la_norm_def)

lemma toy_pass_period:
  assumes "heap L 0 = [x, y, z, vx, vy, vz]"
  shows "iter_body toy_propagator toy_solver mu 0 ''period'' tolDC message it L =
         Inr (\<bar>x - 2\<bar> < tolDC,
              if \<bar>x - 2\<bar> < tolDC
              then L\<lparr>heap := (heap L)(0 := [2, y, z, vx, vy, vz]),
                     out := out L @ (if message then [Cleared (it + 1) \<bar>x - 2\<bar>] else []),
                     thalf := thalf L,
                     xi := Some [x, z, vy], df := Some [[6, 8, 10], [18, 20, 22], [30, 32, 34]],
                     conv_flag := 1\<rparr>
              else L\<lparr>heap := (heap L)(0 := [2, y, z, vx, vy, vz]),
                     out := out L @ (if message then [Current (it + 1) \<bar>x - 2\<bar>] else []),
                     thalf := thalf L,
                     xi := Some [2, z, vy], df := Some [[6, 8, 10], [18, 20, 22], [30, 32, 34]]\<rparr>)"
  using assms
  by (simp add: iter_body_def toy_propagator_def toy_solver_def final_stm_toy read_xi_def
      residual_def jacobian_def call_ssdc_def write_back_def getitem_def setitem_def at2_def)

lemma toy_passes_1:
  "passes toy_propagator toy_solver (\<lambda>a. [1, 0, 0, 0, 1, 0]) mu 0 4 ''period'' (1 / 2) message [] (Suc 0) =
   (None, \<lparr>heap = (\<lambda>a. [1, 0, 0, 0, 1, 0])(0 := [2, 0, 0, 0, 1, 0]),
           out = (if message then [Current 1 1] else []), thalf = 2,
           xi = Some [2, 0, 1], df = Some [[6, 8, 10], [18, 20, 22], [30, 32, 34]], conv_flag = 0\<rparr>)"
  by (simp add: passes_def toy_pass_period [where x = 1 and y = 0 and z = 0 and vx = 0 and vy = 1 and vz = 0])

lemma toy_run:
  "ssdc_periodic_xzplane toy_propagator toy_solver (\<lambda>a. [1, 0, 0, 0, 1, 0]) mu 0 4 ''period'' (1 / 2) 3 message =
   (((\<lambda>a. [1, 0, 0, 0, 1, 0])(0 := [2, 0, 0, 0, 1, 0]),
     if message then [Current 1 1, Cleared 2 0] else []), Inr (4, 0, 1))"
  by (simp add: ssdc_periodic_xzplane_def entry_check_def getitem_def ssdc_main_def passes_def
      numeral_3_eq_3
      toy_pass_period [where x = 1 and y = 0 and z = 0 and vx = 0 and vy = 1 and vz = 0]
      toy_pass_period [where x = 2 and y = 0 and z = 0 and vx = 0 and vy = 1 and vz = 0])

section \<open>The claims about ssdc_periodic_xzplane\<close>

text \<open>
  In the theorems below \<open>P\<close> is the propagator and \<open>S\<close> the solver the routine is run
  with, \<open>h\<close> the heap at entry and \<open>state0\<close> the address of the caller's array.
\<close>

text \<open>
  Claim C5: with \<open>iter_max = 0\<close> the routine returns at once the period it was given, the
  caller's array with its contents untouched and the flag 0, whatever the propagator and
  the solver are (neither is consulted), having printed at most the entry warning. The
  state is one that has a y component for line 30 to read.
\<close>

theorem iter_max_zero_returns_input:
  assumes "1 < length (h state0)"
  shows "ssdc_periodic_xzplane P S h mu state0 period0 fix tolDC 0 message =
         ((h, if \<bar>h state0 ! 1\<bar> > 1 / 10 ^ 9 then [Warning] else []), Inr (period0, state0, 0))"
  using assms by (simp add: ssdc_periodic_xzplane_def entry_check_ok ssdc_main_def passes_def)

theorem iter_max_zero_returns_input_witness:
  "1 < length ((\<lambda>a. [1, 0, 0, 0, 1, 0 :: real]) (0 :: addr)) \<and>
   ssdc_periodic_xzplane (\<lambda>m s t. Inl (External ''propagate_cr3bp called''))
       (\<lambda>x f d. Inl (External ''ssdc called''))
       (\<lambda>a. [1, 0, 0, 0, 1, 0]) (1 / 100) 0 3 ''period'' (1 / 10 ^ 11) 0 False =
     ((\<lambda>a. [1, 0, 0, 0, 1, 0], []), Inr (3, 0, 0))"
  using iter_max_zero_returns_input [of "\<lambda>a. [1, 0, 0, 0, 1, 0]" 0
      "\<lambda>m s t. Inl (External ''propagate_cr3bp called'')" "\<lambda>x f d. Inl (External ''ssdc called'')"
      "1 / 100" 3 "''period''" "1 / 10 ^ 11" False]
  by simp

lemma ssdc_loop_earlier_pass:
  assumes "conv_flag L = 0"
    and "ssdc_loop P S mu state fix tolDC message m it L = (None, Lm)"
    and "conv_flag Lm = 0"
    and "j < m"
  obtains Lj po ferr where
    "ssdc_loop P S mu state fix tolDC message j it L = (None, Lj)"
    "P mu (heap Lj state) (thalf Lj) = Inr po"
    "residual po = Inr ferr"
    "tolDC \<le> la_norm ferr"
proof -
  from assms(4) have j: "j \<le> m" and sj: "Suc j \<le> m" by simp_all
  from ssdc_loop_prefix [OF assms(1,2,3) j] obtain Lj where
    lj: "ssdc_loop P S mu state fix tolDC message j it L = (None, Lj)" and fj: "conv_flag Lj = 0"
    by blast
  from ssdc_loop_prefix [OF assms(1,2,3) sj] obtain L2 where
    l2: "ssdc_loop P S mu state fix tolDC message (Suc j) it L = (None, L2)" and f2: "conv_flag L2 = 0"
    by blast
  from ssdc_loop_pass [OF assms(1) lj fj l2] f2
  have "iter_body P S mu state fix tolDC message (it + j) Lj = Inr (False, L2)" by simp
  then obtain po ferr where
    "P mu (heap Lj state) (thalf Lj) = Inr po" "residual po = Inr ferr"
    "False = (la_norm ferr < tolDC)"
    by (rule iter_body_Inr)
  with lj that show ?thesis by simp
qed

lemma toy_run_exhausted:
  "ssdc_periodic_xzplane toy_propagator toy_solver (\<lambda>a. [1, 0, 0, 0, 1, 0]) mu 0 4 ''period'' 0 2 False =
   (((\<lambda>a. [1, 0, 0, 0, 1, 0])(0 := [2, 0, 0, 0, 1, 0]), []), Inr (4, 0, 0))"
  by (simp add: ssdc_periodic_xzplane_def entry_check_def getitem_def ssdc_main_def passes_def
      numeral_2_eq_2
      toy_pass_period [where x = 1 and y = 0 and z = 0 and vx = 0 and vy = 1 and vz = 0]
      toy_pass_period [where x = 2 and y = 0 and z = 0 and vx = 0 and vy = 1 and vz = 0])

lemma toy_passes_complete:
  assumes "j < 2"
    and "passes toy_propagator toy_solver (\<lambda>a. [1, 0, 0, 0, 1, 0]) mu 0 4 ''period'' 0 False [] j = (None, Lj)"
  shows "\<exists>L'. iter_body toy_propagator toy_solver mu 0 ''period'' 0 False j Lj = Inr (False, L')"
proof -
  from assms(1) consider "j = 0" | "j = Suc 0" by arith
  then show ?thesis
  proof cases
    case 1
    then have "heap Lj 0 = [1, 0, 0, 0, 1, 0]" using assms(2) by (auto simp add: passes_def)
    then show ?thesis by (simp add: toy_pass_period)
  next
    case 2
    then have "heap Lj 0 = [2, 0, 0, 0, 1, 0]"
      using assms(2)
      by (auto simp add: passes_def
          toy_pass_period [where x = 1 and y = 0 and z = 0 and vx = 0 and vy = 1 and vz = 0])
    then show ?thesis by (simp add: toy_pass_period)
  qed
qed

text \<open>
  Claim C4: the flag is assigned 1 in one place only, at the \<open>break\<close>. Once line 30 has
  read the y component (\<open>entry_check\<close> succeeds), a run that returns does so in one of two
  ways. With the flag 1: some pass \<open>k < iter_max\<close> is the first whose residual norm is
  below \<open>tolDC\<close> (every earlier pass found a norm of at least \<open>tolDC\<close>), the loop stops
  there (any larger number of passes gives the same variables \<open>L'\<close>), and the result is
  read off \<open>L'\<close>. With the flag 0: every one of the \<open>iter_max\<close> passes found a norm of at
  least \<open>tolDC\<close> and the result is read off the variables after the last pass. Conversely,
  if every pass that is reached completes without leaving the loop (it raises nothing and
  its residual norm is not below \<open>tolDC\<close>), the run returns normally with the flag 0 and
  the state and half-period of the last pass.
\<close>

theorem flag_set_once_at_first_residual_below_tolerance:
  assumes ec: "entry_check h state0 = Inr printed"
  shows "(snd (ssdc_periodic_xzplane P S h mu state0 period0 fix tolDC iter_max message) = Inr (period, st, flag) \<longrightarrow>
            (flag = 1 \<and>
             (\<exists>k < nat iter_max.
                (\<forall>j < k. \<exists>Lj po ferr. passes P S h mu state0 period0 fix tolDC message printed j = (None, Lj)
                    \<and> P mu (heap Lj state0) (thalf Lj) = Inr po \<and> residual po = Inr ferr
                    \<and> tolDC \<le> la_norm ferr)
              \<and> (\<exists>Lk po ferr L'. passes P S h mu state0 period0 fix tolDC message printed k = (None, Lk) \<and> conv_flag Lk = 0
                    \<and> P mu (heap Lk state0) (thalf Lk) = Inr po \<and> residual po = Inr ferr
                    \<and> la_norm ferr < tolDC
                    \<and> (\<forall>n \<ge> Suc k. passes P S h mu state0 period0 fix tolDC message printed n = (None, L'))
                    \<and> ssdc_periodic_xzplane P S h mu state0 period0 fix tolDC iter_max message = ((heap L', out L'), Inr (thalf L' * 2, state0, 1)))))
          \<or> (flag = 0 \<and>
             (\<forall>j < nat iter_max. \<exists>Lj po ferr. passes P S h mu state0 period0 fix tolDC message printed j = (None, Lj)
                    \<and> P mu (heap Lj state0) (thalf Lj) = Inr po \<and> residual po = Inr ferr
                    \<and> tolDC \<le> la_norm ferr)
              \<and> (\<exists>L. passes P S h mu state0 period0 fix tolDC message printed (nat iter_max) = (None, L)
                    \<and> ssdc_periodic_xzplane P S h mu state0 period0 fix tolDC iter_max message = ((heap L, out L), Inr (thalf L * 2, state0, 0)))))
       \<and> ((\<forall>j < nat iter_max. \<forall>Lj. passes P S h mu state0 period0 fix tolDC message printed j = (None, Lj) \<longrightarrow>
              (\<exists>L'. iter_body P S mu state0 fix tolDC message j Lj = Inr (False, L')))
           \<longrightarrow> (\<exists>L. passes P S h mu state0 period0 fix tolDC message printed (nat iter_max) = (None, L)
                    \<and> ssdc_periodic_xzplane P S h mu state0 period0 fix tolDC iter_max message = ((heap L, out L), Inr (thalf L * 2, state0, 0))))"
proof (intro conjI impI)
  let ?after = "passes P S h mu state0 period0 fix tolDC message printed"
  let ?run = "ssdc_periodic_xzplane P S h mu state0 period0 fix tolDC iter_max message"
  let ?L0 = "\<lparr>heap = h, out = printed, thalf = period0 / 2, xi = None, df = None, conv_flag = 0\<rparr>"
  have f0: "conv_flag ?L0 = 0" by simp
  have aft: "\<And>k. ?after k = ssdc_loop P S mu state0 fix tolDC message k 0 ?L0"
    by (simp add: passes_def)
  have run_eq: "\<And>L. ?after (nat iter_max) = (None, L) \<Longrightarrow>
      ?run = ((heap L, out L), Inr (thalf L * 2, state0, conv_flag L))"
    by (simp add: ssdc_periodic_xzplane_def ec ssdc_main_def)
  {
    assume ret: "snd ?run = Inr (period, st, flag)"
    from ret obtain printed' L where
      "entry_check h state0 = Inr printed'" and
      ps: "passes P S h mu state0 period0 fix tolDC message printed' (nat iter_max) = (None, L)" and
      fl: "flag = conv_flag L"
      by (rule run_returns)
    with ec have "printed' = printed" by simp
    with ps have an: "?after (nat iter_max) = (None, L)" by simp
    then have lp: "ssdc_loop P S mu state0 fix tolDC message (nat iter_max) 0 ?L0 = (None, L)"
      by (simp add: aft)
    note run = run_eq [OF an]
    from ssdc_loop_flag_range [OF f0 lp] have "conv_flag L = 0 \<or> conv_flag L = 1" .
    then show "(flag = 1 \<and>
             (\<exists>k < nat iter_max.
                (\<forall>j < k. \<exists>Lj po ferr. ?after j = (None, Lj)
                    \<and> P mu (heap Lj state0) (thalf Lj) = Inr po \<and> residual po = Inr ferr
                    \<and> tolDC \<le> la_norm ferr)
              \<and> (\<exists>Lk po ferr L'. ?after k = (None, Lk) \<and> conv_flag Lk = 0
                    \<and> P mu (heap Lk state0) (thalf Lk) = Inr po \<and> residual po = Inr ferr
                    \<and> la_norm ferr < tolDC
                    \<and> (\<forall>n \<ge> Suc k. ?after n = (None, L'))
                    \<and> ?run = ((heap L', out L'), Inr (thalf L' * 2, state0, 1)))))
          \<or> (flag = 0 \<and>
             (\<forall>j < nat iter_max. \<exists>Lj po ferr. ?after j = (None, Lj)
                    \<and> P mu (heap Lj state0) (thalf Lj) = Inr po \<and> residual po = Inr ferr
                    \<and> tolDC \<le> la_norm ferr)
              \<and> (\<exists>L. ?after (nat iter_max) = (None, L)
                    \<and> ?run = ((heap L, out L), Inr (thalf L * 2, state0, 0))))"
    proof
      assume z: "conv_flag L = 0"
      have "\<forall>j < nat iter_max. \<exists>Lj po ferr. ?after j = (None, Lj)
                    \<and> P mu (heap Lj state0) (thalf Lj) = Inr po \<and> residual po = Inr ferr
                    \<and> tolDC \<le> la_norm ferr"
        unfolding aft using ssdc_loop_earlier_pass [OF f0 lp z] by metis
      moreover have "\<exists>L. ?after (nat iter_max) = (None, L)
                    \<and> ?run = ((heap L, out L), Inr (thalf L * 2, state0, 0))"
        using an run z by auto
      ultimately show ?thesis using fl z by blast
    next
      assume o: "conv_flag L = 1"
      from ssdc_loop_break [OF f0 lp o] obtain k Lk where
        k: "k < nat iter_max" and
        pk: "ssdc_loop P S mu state0 fix tolDC message k 0 ?L0 = (None, Lk)" and
        fk: "conv_flag Lk = 0" and
        bk: "iter_body P S mu state0 fix tolDC message (0 + k) Lk = Inr (True, L)"
        by blast
      from bk obtain po ferr where
        b: "P mu (heap Lk state0) (thalf Lk) = Inr po" "residual po = Inr ferr"
           "True = (la_norm ferr < tolDC)"
        by (rule iter_body_Inr)
      have early: "\<forall>j < k. \<exists>Lj po ferr. ?after j = (None, Lj)
                    \<and> P mu (heap Lj state0) (thalf Lj) = Inr po \<and> residual po = Inr ferr
                    \<and> tolDC \<le> la_norm ferr"
        unfolding aft using ssdc_loop_earlier_pass [OF f0 pk fk] by metis
      have sk: "ssdc_loop P S mu state0 fix tolDC message (Suc k) 0 ?L0 = (None, L)"
        unfolding ssdc_loop_snoc [OF f0] using pk fk bk by simp
      have stop: "\<forall>n \<ge> Suc k. ?after n = (None, L)"
        unfolding aft using ssdc_loop_stops [OF f0 sk] o by blast
      have inner: "\<exists>Lk po ferr L'. ?after k = (None, Lk) \<and> conv_flag Lk = 0
                    \<and> P mu (heap Lk state0) (thalf Lk) = Inr po \<and> residual po = Inr ferr
                    \<and> la_norm ferr < tolDC
                    \<and> (\<forall>n \<ge> Suc k. ?after n = (None, L'))
                    \<and> ?run = ((heap L', out L'), Inr (thalf L' * 2, state0, 1))"
        using pk [folded aft] fk b stop run o by auto
      have f1: "flag = 1" using fl o by simp
      show ?thesis
        by (rule disjI1, rule conjI, rule f1, rule exI [of _ k], intro conjI, rule k, rule early, rule inner)
    qed
  }
  {
    assume H: "\<forall>j < nat iter_max. \<forall>Lj. ?after j = (None, Lj) \<longrightarrow>
              (\<exists>L'. iter_body P S mu state0 fix tolDC message j Lj = Inr (False, L'))"
    have "j \<le> nat iter_max \<Longrightarrow> \<exists>Lj. ?after j = (None, Lj) \<and> conv_flag Lj = 0" for j
    proof (induction j)
      case 0
      then show ?case by (simp add: aft)
    next
      case (Suc j)
      then obtain Lj where lj: "?after j = (None, Lj)" and fj: "conv_flag Lj = 0" by auto
      from Suc.prems have "j < nat iter_max" by simp
      with H lj have "\<exists>L'. iter_body P S mu state0 fix tolDC message j Lj = Inr (False, L')"
        by blast
      then obtain L' where
        b: "iter_body P S mu state0 fix tolDC message j Lj = Inr (False, L')" ..
      from iter_body_flag [OF b] fj have "conv_flag L' = 0" by simp
      moreover have "?after (Suc j) = (None, L')"
        unfolding aft ssdc_loop_snoc [OF f0] using lj [unfolded aft] fj b by simp
      ultimately show ?case by blast
    qed
    then obtain L where "?after (nat iter_max) = (None, L)" "conv_flag L = 0" by blast
    with run_eq [of L]
    show "\<exists>L. ?after (nat iter_max) = (None, L)
                    \<and> ?run = ((heap L, out L), Inr (thalf L * 2, state0, 0))"
      by auto
  }
qed

theorem flag_set_once_at_first_residual_below_tolerance_witness:
  "entry_check (\<lambda>a. [1, 0, 0, 0, 1, 0]) 0 = Inr []
   \<and> snd (ssdc_periodic_xzplane toy_propagator toy_solver (\<lambda>a. [1, 0, 0, 0, 1, 0]) (1 / 100) 0 4
            ''period'' (1 / 2) 3 False) = Inr (4, 0, 1)
   \<and> (\<exists>k < nat 3.
        (\<forall>j < k. \<exists>Lj po ferr.
            passes toy_propagator toy_solver (\<lambda>a. [1, 0, 0, 0, 1, 0]) (1 / 100) 0 4 ''period'' (1 / 2)
              False [] j = (None, Lj)
          \<and> toy_propagator (1 / 100) (heap Lj 0) (thalf Lj) = Inr po \<and> residual po = Inr ferr
          \<and> 1 / 2 \<le> la_norm ferr)
      \<and> (\<exists>Lk po ferr L'.
            passes toy_propagator toy_solver (\<lambda>a. [1, 0, 0, 0, 1, 0]) (1 / 100) 0 4 ''period'' (1 / 2)
              False [] k = (None, Lk)
          \<and> conv_flag Lk = 0
          \<and> toy_propagator (1 / 100) (heap Lk 0) (thalf Lk) = Inr po \<and> residual po = Inr ferr
          \<and> la_norm ferr < 1 / 2
          \<and> (\<forall>n \<ge> Suc k.
                passes toy_propagator toy_solver (\<lambda>a. [1, 0, 0, 0, 1, 0]) (1 / 100) 0 4 ''period''
                  (1 / 2) False [] n = (None, L'))
          \<and> ssdc_periodic_xzplane toy_propagator toy_solver (\<lambda>a. [1, 0, 0, 0, 1, 0]) (1 / 100) 0 4
               ''period'' (1 / 2) 3 False = ((heap L', out L'), Inr (thalf L' * 2, 0, 1))))
   \<and> (\<exists>L. passes toy_propagator toy_solver (\<lambda>a. [1, 0, 0, 0, 1, 0]) (1 / 100) 0 4 ''period'' 0
              False [] (nat 2) = (None, L)
          \<and> ssdc_periodic_xzplane toy_propagator toy_solver (\<lambda>a. [1, 0, 0, 0, 1, 0]) (1 / 100) 0 4
               ''period'' 0 2 False = ((heap L, out L), Inr (thalf L * 2, 0, 0)))"
proof -
  have ec: "entry_check (\<lambda>a. [1, 0, 0, 0, 1, 0]) 0 = Inr []"
    by (simp add: entry_check_def getitem_def)
  have r: "snd (ssdc_periodic_xzplane toy_propagator toy_solver (\<lambda>a. [1, 0, 0, 0, 1, 0]) (1 / 100) 0 4
            ''period'' (1 / 2) 3 False) = Inr (4, 0, 1)"
    by (simp add: toy_run)
  have H: "\<forall>j < nat 2. \<forall>Lj.
          passes toy_propagator toy_solver (\<lambda>a. [1, 0, 0, 0, 1, 0]) (1 / 100) 0 4 ''period'' 0
            False [] j = (None, Lj) \<longrightarrow>
          (\<exists>L'. iter_body toy_propagator toy_solver (1 / 100) 0 ''period'' 0 False j Lj = Inr (False, L'))"
    using toy_passes_complete by simp
  note A = flag_set_once_at_first_residual_below_tolerance
      [OF ec, of toy_propagator toy_solver "1 / 100" 4 "''period''" "1 / 2" 3 False 4 0 1,
       THEN conjunct1, rule_format, OF r]
  note B = flag_set_once_at_first_residual_below_tolerance
      [OF ec, of toy_propagator toy_solver "1 / 100" 4 "''period''" 0 2 False 4 0 0,
       THEN conjunct2, rule_format, OF H [rule_format]]
  from A have A': "\<exists>k < nat 3.
        (\<forall>j < k. \<exists>Lj po ferr.
            passes toy_propagator toy_solver (\<lambda>a. [1, 0, 0, 0, 1, 0]) (1 / 100) 0 4 ''period'' (1 / 2)
              False [] j = (None, Lj)
          \<and> toy_propagator (1 / 100) (heap Lj 0) (thalf Lj) = Inr po \<and> residual po = Inr ferr
          \<and> 1 / 2 \<le> la_norm ferr)
      \<and> (\<exists>Lk po ferr L'.
            passes toy_propagator toy_solver (\<lambda>a. [1, 0, 0, 0, 1, 0]) (1 / 100) 0 4 ''period'' (1 / 2)
              False [] k = (None, Lk)
          \<and> conv_flag Lk = 0
          \<and> toy_propagator (1 / 100) (heap Lk 0) (thalf Lk) = Inr po \<and> residual po = Inr ferr
          \<and> la_norm ferr < 1 / 2
          \<and> (\<forall>n \<ge> Suc k.
                passes toy_propagator toy_solver (\<lambda>a. [1, 0, 0, 0, 1, 0]) (1 / 100) 0 4 ''period''
                  (1 / 2) False [] n = (None, L'))
          \<and> ssdc_periodic_xzplane toy_propagator toy_solver (\<lambda>a. [1, 0, 0, 0, 1, 0]) (1 / 100) 0 4
               ''period'' (1 / 2) 3 False = ((heap L', out L'), Inr (thalf L' * 2, 0, 1)))"
    by simp
  from ec r A' B show ?thesis by (intro conjI)
qed

lemma ssdc_loop_invariant:
  assumes step: "\<And>it L brk L'. iter_body P S mu state fix tolDC message it L = Inr (brk, L') \<Longrightarrow> R L L'"
    and refl: "\<And>L. R L L"
    and trans: "\<And>L1 L2 L3. R L1 L2 \<Longrightarrow> R L2 L3 \<Longrightarrow> R L1 L3"
    and run: "ssdc_loop P S mu state fix tolDC message n it L = (r, L')"
  shows "R L L'"
  using run
proof (induction n arbitrary: it L)
  case 0
  then show ?case using refl by simp
next
  case (Suc n)
  show ?case
  proof (cases "iter_body P S mu state fix tolDC message it L")
    case (Inl e)
    then show ?thesis using Suc.prems refl by simp
  next
    case (Inr p)
    obtain brk L1 where p: "p = (brk, L1)" by (cases p)
    from step [OF Inr [unfolded p]] have r1: "R L L1" .
    show ?thesis
    proof (cases brk)
      case True
      then show ?thesis using Suc.prems Inr p r1 by simp
    next
      case False
      then have "ssdc_loop P S mu state fix tolDC message n (Suc it) L1 = (r, L')"
        using Suc.prems Inr p by simp
      from trans [OF r1 Suc.IH [OF this]] show ?thesis .
    qed
  qed
qed

lemma getitem_Inr: "getitem a i = Inr v \<longleftrightarrow> i < length a \<and> v = a ! i"
  by (auto simp add: getitem_def)

lemma setitem_Inr: "setitem h a i v = Inr h' \<longleftrightarrow> i < length (h a) \<and> h' = h(a := (h a)[i := v])"
  by (auto simp add: setitem_def)

lemma read_xi_z:
  "read_xi ''z'' st th old = Inr x \<longleftrightarrow> 4 < length st \<and> x = Some [st ! 0, st ! 4, th]"
  by (auto simp add: read_xi_def bind_e_eq_Inr getitem_Inr)

lemma read_xi_period:
  "read_xi ''period'' st th old = Inr x \<longleftrightarrow> 4 < length st \<and> x = Some [st ! 0, st ! 2, st ! 4]"
  by (auto simp add: read_xi_def bind_e_eq_Inr getitem_Inr)

lemma write_back_z:
  "write_back ''z'' h s th xii = Inr (h1, th1) \<longleftrightarrow>
     2 < length xii \<and> 4 < length (h s)
     \<and> h1 = h(s := (h s)[0 := xii ! 0, 4 := xii ! 1]) \<and> th1 = xii ! 2"
  by (auto simp add: write_back_def bind_e_eq_Inr getitem_Inr setitem_Inr)

lemma write_back_period:
  "write_back ''period'' h s th xii = Inr (h1, th1) \<longleftrightarrow>
     2 < length xii \<and> 4 < length (h s)
     \<and> h1 = h(s := (h s)[0 := xii ! 0, 2 := xii ! 1, 4 := xii ! 2]) \<and> th1 = th"
  by (auto simp add: write_back_def bind_e_eq_Inr getitem_Inr setitem_Inr)

lemma iter_body_z:
  assumes "iter_body P S mu s ''z'' tolDC message it L = Inr (brk, L')"
  obtains ferr d xii where
    "S [heap L s ! 0, heap L s ! 4, thalf L] ferr d = Inr xii"
    "heap L' = (heap L)(s := (heap L s)[0 := xii ! 0, 4 := xii ! 1])"
    "thalf L' = xii ! 2"
proof -
  from assms obtain xi1 ferr df1 xii h1 th1 where
    b: "read_xi ''z'' (heap L s) (thalf L) (xi L) = Inr xi1"
       "call_ssdc S xi1 ferr df1 = Inr xii"
       "write_back ''z'' (heap L) s (thalf L) xii = Inr (h1, th1)"
       "L' = (if la_norm ferr < tolDC
           then L\<lparr>heap := h1,
                  out := out L @ (if message then [Cleared (it + 1) (la_norm ferr)] else []),
                  thalf := th1, xi := xi1, df := df1, conv_flag := 1\<rparr>
           else L\<lparr>heap := h1,
                  out := out L @ (if message then [Current (it + 1) (la_norm ferr)] else []),
                  thalf := th1, xi := Some xii, df := df1\<rparr>)"
    by (rule iter_body_Inr)
  from b(2) obtain xv dv where s: "xi1 = Some xv" "S xv ferr dv = Inr xii" by (rule call_ssdc_Inr)
  from b(1) s(1) have "xv = [heap L s ! 0, heap L s ! 4, thalf L]" by (simp add: read_xi_z)
  moreover from b(3) have "h1 = (heap L)(s := (heap L s)[0 := xii ! 0, 4 := xii ! 1])" "th1 = xii ! 2"
    by (simp_all add: write_back_z)
  moreover have "heap L' = h1" "thalf L' = th1" using b(4) by (simp_all split: if_splits)
  ultimately show ?thesis using s(2) that by simp
qed

lemma iter_body_period:
  assumes "iter_body P S mu s ''period'' tolDC message it L = Inr (brk, L')"
  obtains ferr d xii where
    "S [heap L s ! 0, heap L s ! 2, heap L s ! 4] ferr d = Inr xii"
    "heap L' = (heap L)(s := (heap L s)[0 := xii ! 0, 2 := xii ! 1, 4 := xii ! 2])"
    "thalf L' = thalf L"
proof -
  from assms obtain xi1 ferr df1 xii h1 th1 where
    b: "read_xi ''period'' (heap L s) (thalf L) (xi L) = Inr xi1"
       "call_ssdc S xi1 ferr df1 = Inr xii"
       "write_back ''period'' (heap L) s (thalf L) xii = Inr (h1, th1)"
       "L' = (if la_norm ferr < tolDC
           then L\<lparr>heap := h1,
                  out := out L @ (if message then [Cleared (it + 1) (la_norm ferr)] else []),
                  thalf := th1, xi := xi1, df := df1, conv_flag := 1\<rparr>
           else L\<lparr>heap := h1,
                  out := out L @ (if message then [Current (it + 1) (la_norm ferr)] else []),
                  thalf := th1, xi := Some xii, df := df1\<rparr>)"
    by (rule iter_body_Inr)
  from b(2) obtain xv dv where s: "xi1 = Some xv" "S xv ferr dv = Inr xii" by (rule call_ssdc_Inr)
  from b(1) s(1) have "xv = [heap L s ! 0, heap L s ! 2, heap L s ! 4]" by (simp add: read_xi_period)
  moreover from b(3) have "h1 = (heap L)(s := (heap L s)[0 := xii ! 0, 2 := xii ! 1, 4 := xii ! 2])" "th1 = thalf L"
    by (simp_all add: write_back_period)
  moreover have "heap L' = h1" "thalf L' = th1" using b(4) by (simp_all split: if_splits)
  ultimately show ?thesis using s(2) that by simp
qed

lemma ssdc_loop_frame_z:
  assumes "ssdc_loop P S mu s ''z'' tolDC message n it L = (r, L')"
  shows "length (heap L' s) = length (heap L s)
       \<and> (\<forall>i. i \<noteq> 0 \<longrightarrow> i \<noteq> 4 \<longrightarrow> heap L' s ! i = heap L s ! i)
       \<and> (\<forall>a. a \<noteq> s \<longrightarrow> heap L' a = heap L a)"
proof (rule ssdc_loop_invariant [where R = "\<lambda>L L'. length (heap L' s) = length (heap L s)
       \<and> (\<forall>i. i \<noteq> 0 \<longrightarrow> i \<noteq> 4 \<longrightarrow> heap L' s ! i = heap L s ! i)
       \<and> (\<forall>a. a \<noteq> s \<longrightarrow> heap L' a = heap L a)", OF _ _ _ assms])
  fix it L brk L'
  assume "iter_body P S mu s ''z'' tolDC message it L = Inr (brk, L')"
  then obtain xii where "heap L' = (heap L)(s := (heap L s)[0 := xii ! 0, 4 := xii ! 1])"
    by (rule iter_body_z)
  then show "length (heap L' s) = length (heap L s)
       \<and> (\<forall>i. i \<noteq> 0 \<longrightarrow> i \<noteq> 4 \<longrightarrow> heap L' s ! i = heap L s ! i)
       \<and> (\<forall>a. a \<noteq> s \<longrightarrow> heap L' a = heap L a)"
    by simp
qed simp_all

lemma ssdc_loop_frame_period:
  assumes "ssdc_loop P S mu s ''period'' tolDC message n it L = (r, L')"
  shows "length (heap L' s) = length (heap L s)
       \<and> (\<forall>i. i \<noteq> 0 \<longrightarrow> i \<noteq> 2 \<longrightarrow> i \<noteq> 4 \<longrightarrow> heap L' s ! i = heap L s ! i)
       \<and> (\<forall>a. a \<noteq> s \<longrightarrow> heap L' a = heap L a)
       \<and> thalf L' = thalf L"
proof (rule ssdc_loop_invariant [where R = "\<lambda>L L'. length (heap L' s) = length (heap L s)
       \<and> (\<forall>i. i \<noteq> 0 \<longrightarrow> i \<noteq> 2 \<longrightarrow> i \<noteq> 4 \<longrightarrow> heap L' s ! i = heap L s ! i)
       \<and> (\<forall>a. a \<noteq> s \<longrightarrow> heap L' a = heap L a)
       \<and> thalf L' = thalf L", OF _ _ _ assms])
  fix it L brk L'
  assume "iter_body P S mu s ''period'' tolDC message it L = Inr (brk, L')"
  then obtain xii where "heap L' = (heap L)(s := (heap L s)[0 := xii ! 0, 2 := xii ! 1, 4 := xii ! 2])"
    "thalf L' = thalf L"
    by (rule iter_body_period)
  then show "length (heap L' s) = length (heap L s)
       \<and> (\<forall>i. i \<noteq> 0 \<longrightarrow> i \<noteq> 2 \<longrightarrow> i \<noteq> 4 \<longrightarrow> heap L' s ! i = heap L s ! i)
       \<and> (\<forall>a. a \<noteq> s \<longrightarrow> heap L' a = heap L a)
       \<and> thalf L' = thalf L"
    by simp
qed simp_all


lemma run_cases:
  obtains (entry) e where
      "entry_check h state0 = Inl e"
      "ssdc_periodic_xzplane P S h mu state0 period0 fix tolDC iter_max message = ((h, []), Inl e)"
  | (raised) printed e L where
      "entry_check h state0 = Inr printed"
      "passes P S h mu state0 period0 fix tolDC message printed (nat iter_max) = (Some e, L)"
      "ssdc_periodic_xzplane P S h mu state0 period0 fix tolDC iter_max message =
         ((heap L, out L), Inl e)"
  | (returned) printed L where
      "entry_check h state0 = Inr printed"
      "passes P S h mu state0 period0 fix tolDC message printed (nat iter_max) = (None, L)"
      "ssdc_periodic_xzplane P S h mu state0 period0 fix tolDC iter_max message =
         ((heap L, out L), Inr (thalf L * 2, state0, conv_flag L))"
proof (cases "entry_check h state0")
  case (Inl e)
  then show ?thesis using entry by (simp add: ssdc_periodic_xzplane_def)
next
  case (Inr printed)
  obtain r L where ps: "passes P S h mu state0 period0 fix tolDC message printed (nat iter_max) = (r, L)"
    by (cases "passes P S h mu state0 period0 fix tolDC message printed (nat iter_max)")
  show ?thesis
  proof (cases r)
    case None
    have "ssdc_periodic_xzplane P S h mu state0 period0 fix tolDC iter_max message =
         ((heap L, out L), Inr (thalf L * 2, state0, conv_flag L))"
      using Inr ps None by (simp add: ssdc_periodic_xzplane_def ssdc_main_def)
    with Inr ps [unfolded None] show ?thesis by (rule returned)
  next
    case (Some e)
    have "ssdc_periodic_xzplane P S h mu state0 period0 fix tolDC iter_max message =
         ((heap L, out L), Inl e)"
      using Inr ps Some by (simp add: ssdc_periodic_xzplane_def ssdc_main_def)
    with Inr ps [unfolded Some] show ?thesis by (rule raised)
  qed
qed

lemma run_heap_of_loop:
  assumes "ssdc_periodic_xzplane P S h mu state0 period0 fix tolDC iter_max message = ((h', out'), r)"
  obtains "h' = h" "\<And>x. r \<noteq> Inr x"
  | printed rr L where
      "ssdc_loop P S mu state0 fix tolDC message (nat iter_max) 0
         \<lparr>heap = h, out = printed, thalf = period0 / 2, xi = None, df = None, conv_flag = 0\<rparr> = (rr, L)"
      "h' = heap L"
      "\<And>period st flag. r = Inr (period, st, flag) \<Longrightarrow> period = thalf L * 2 \<and> st = state0"
proof (cases rule: run_cases [of h state0 P S mu period0 "fix" tolDC iter_max message])
  case (entry e)
  with assms that(1) show ?thesis by auto
next
  case (raised printed e L)
  with assms that(2) [of printed "Some e" L] show ?thesis by (auto simp add: passes_def)
next
  case (returned printed L)
  with assms that(2) [of printed None L] show ?thesis by (auto simp add: passes_def)
qed

lemma pass_z:
  "\<forall>it L brk L'. iter_body P S mu state0 ''z'' tolDC message it L = Inr (brk, L') \<longrightarrow>
               (\<exists>ferr d xii.
                   S [heap L state0 ! 0, heap L state0 ! 4, thalf L] ferr d = Inr xii
                 \<and> heap L' = (heap L)(state0 := (heap L state0)[0 := xii ! 0, 4 := xii ! 1])
                 \<and> thalf L' = xii ! 2)"
proof (intro allI impI)
  fix it L brk L'
  assume "iter_body P S mu state0 ''z'' tolDC message it L = Inr (brk, L')"
  then show "\<exists>ferr d xii.
                   S [heap L state0 ! 0, heap L state0 ! 4, thalf L] ferr d = Inr xii
                 \<and> heap L' = (heap L)(state0 := (heap L state0)[0 := xii ! 0, 4 := xii ! 1])
                 \<and> thalf L' = xii ! 2"
    by (elim iter_body_z) blast
qed

lemma pass_period:
  "\<forall>it L brk L'. iter_body P S mu state0 ''period'' tolDC message it L = Inr (brk, L') \<longrightarrow>
               (\<exists>ferr d xii.
                   S [heap L state0 ! 0, heap L state0 ! 2, heap L state0 ! 4] ferr d = Inr xii
                 \<and> heap L' = (heap L)(state0 := (heap L state0)[0 := xii ! 0, 2 := xii ! 1, 4 := xii ! 2])
                 \<and> thalf L' = thalf L)"
proof (intro allI impI)
  fix it L brk L'
  assume "iter_body P S mu state0 ''period'' tolDC message it L = Inr (brk, L')"
  then show "\<exists>ferr d xii.
                   S [heap L state0 ! 0, heap L state0 ! 2, heap L state0 ! 4] ferr d = Inr xii
                 \<and> heap L' = (heap L)(state0 := (heap L state0)[0 := xii ! 0, 2 := xii ! 1, 4 := xii ! 2])
                 \<and> thalf L' = thalf L"
    by (elim iter_body_period) blast
qed

lemma toy_pass_z:
  assumes "heap L 0 = [x, y, z, vx, vy, vz]"
  shows "iter_body toy_propagator toy_solver mu 0 ''z'' tolDC message it L =
         Inr (\<bar>x - 2\<bar> < tolDC,
              if \<bar>x - 2\<bar> < tolDC
              then L\<lparr>heap := (heap L)(0 := [2, y, z, vx, vy, vz]),
                     out := out L @ (if message then [Cleared (it + 1) \<bar>x - 2\<bar>] else []),
                     thalf := thalf L,
                     xi := Some [x, vy, thalf L], df := Some [[6, 10, 1], [18, 22, 2], [30, 34, 3]],
                     conv_flag := 1\<rparr>
              else L\<lparr>heap := (heap L)(0 := [2, y, z, vx, vy, vz]),
                     out := out L @ (if message then [Current (it + 1) \<bar>x - 2\<bar>] else []),
                     thalf := thalf L,
                     xi := Some [2, vy, thalf L], df := Some [[6, 10, 1], [18, 22, 2], [30, 34, 3]]\<rparr>)"
  using assms
  by (simp add: iter_body_def toy_propagator_def toy_solver_def final_stm_toy read_xi_def
      residual_def jacobian_def call_ssdc_def write_back_def getitem_def setitem_def at2_def)

lemma toy_run_z:
  "ssdc_periodic_xzplane toy_propagator toy_solver (\<lambda>a. [1, 0, 0, 0, 1, 0]) mu 0 4 ''z'' (1 / 2) 3 message =
   (((\<lambda>a. [1, 0, 0, 0, 1, 0])(0 := [2, 0, 0, 0, 1, 0]),
     if message then [Current 1 1, Cleared 2 0] else []), Inr (4, 0, 1))"
  by (simp add: ssdc_periodic_xzplane_def entry_check_def getitem_def ssdc_main_def passes_def
      numeral_3_eq_3
      toy_pass_z [where x = 1 and y = 0 and z = 0 and vx = 0 and vy = 1 and vz = 0]
      toy_pass_z [where x = 2 and y = 0 and z = 0 and vx = 0 and vy = 1 and vz = 0])

text \<open>
  Claim C2: whatever the run does (return or raise), with \<open>fix = "z"\<close> the caller's array
  keeps its length and every component other than 0 and 4 (so y, z, vx and vz), no other
  array changes, and each completed pass hands the solver \<open>(state[0], state[4], thalf)\<close>
  and writes its output to exactly these three places. With \<open>fix = "period"\<close> the same
  holds for the components other than 0, 2 and 4 (so y, vx and vz) and for the free
  variables \<open>(state[0], state[2], state[4])\<close>; the half-period is never written, so a run
  that returns gives back \<open>period0\<close>.
\<close>

theorem free_variables_read_and_written_in_place:
  assumes "ssdc_periodic_xzplane P S h mu state0 period0 fix tolDC iter_max message = ((h', out'), r)"
  shows "(fix = ''z'' \<longrightarrow>
            length (h' state0) = length (h state0)
          \<and> (\<forall>i. i \<noteq> 0 \<longrightarrow> i \<noteq> 4 \<longrightarrow> h' state0 ! i = h state0 ! i)
          \<and> (\<forall>a. a \<noteq> state0 \<longrightarrow> h' a = h a)
          \<and> (\<forall>it L brk L'. iter_body P S mu state0 fix tolDC message it L = Inr (brk, L') \<longrightarrow>
               (\<exists>ferr d xii.
                   S [heap L state0 ! 0, heap L state0 ! 4, thalf L] ferr d = Inr xii
                 \<and> heap L' = (heap L)(state0 := (heap L state0)[0 := xii ! 0, 4 := xii ! 1])
                 \<and> thalf L' = xii ! 2)))
       \<and> (fix = ''period'' \<longrightarrow>
            length (h' state0) = length (h state0)
          \<and> (\<forall>i. i \<noteq> 0 \<longrightarrow> i \<noteq> 2 \<longrightarrow> i \<noteq> 4 \<longrightarrow> h' state0 ! i = h state0 ! i)
          \<and> (\<forall>a. a \<noteq> state0 \<longrightarrow> h' a = h a)
          \<and> (\<forall>period st flag. r = Inr (period, st, flag) \<longrightarrow> period = period0)
          \<and> (\<forall>it L brk L'. iter_body P S mu state0 fix tolDC message it L = Inr (brk, L') \<longrightarrow>
               (\<exists>ferr d xii.
                   S [heap L state0 ! 0, heap L state0 ! 2, heap L state0 ! 4] ferr d = Inr xii
                 \<and> heap L' = (heap L)(state0 := (heap L state0)[0 := xii ! 0, 2 := xii ! 1, 4 := xii ! 2])
                 \<and> thalf L' = thalf L)))"
proof (rule conjI [OF impI impI])
  assume z: "fix = ''z''"
  from assms have "length (h' state0) = length (h state0)
          \<and> (\<forall>i. i \<noteq> 0 \<longrightarrow> i \<noteq> 4 \<longrightarrow> h' state0 ! i = h state0 ! i)
          \<and> (\<forall>a. a \<noteq> state0 \<longrightarrow> h' a = h a)"
  proof (cases rule: run_heap_of_loop)
    case 1
    then show ?thesis by simp
  next
    case (2 printed rr L)
    from ssdc_loop_frame_z [OF 2(1) [unfolded z]] 2(2)
    show ?thesis by simp
  qed
  with pass_z [of P S mu state0 tolDC message]
  show "length (h' state0) = length (h state0)
          \<and> (\<forall>i. i \<noteq> 0 \<longrightarrow> i \<noteq> 4 \<longrightarrow> h' state0 ! i = h state0 ! i)
          \<and> (\<forall>a. a \<noteq> state0 \<longrightarrow> h' a = h a)
          \<and> (\<forall>it L brk L'. iter_body P S mu state0 fix tolDC message it L = Inr (brk, L') \<longrightarrow>
               (\<exists>ferr d xii.
                   S [heap L state0 ! 0, heap L state0 ! 4, thalf L] ferr d = Inr xii
                 \<and> heap L' = (heap L)(state0 := (heap L state0)[0 := xii ! 0, 4 := xii ! 1])
                 \<and> thalf L' = xii ! 2))"
    unfolding z by (intro conjI) (erule conjunct1 conjunct2 | assumption | drule conjunct2)+
next
  assume p: "fix = ''period''"
  from assms have "length (h' state0) = length (h state0)
          \<and> (\<forall>i. i \<noteq> 0 \<longrightarrow> i \<noteq> 2 \<longrightarrow> i \<noteq> 4 \<longrightarrow> h' state0 ! i = h state0 ! i)
          \<and> (\<forall>a. a \<noteq> state0 \<longrightarrow> h' a = h a)
          \<and> (\<forall>period st flag. r = Inr (period, st, flag) \<longrightarrow> period = period0)"
  proof (cases rule: run_heap_of_loop)
    case 1
    then show ?thesis by simp
  next
    case (2 printed rr L)
    from ssdc_loop_frame_period [OF 2(1) [unfolded p]] 2(2) 2(3)
    show ?thesis by simp
  qed
  with pass_period [of P S mu state0 tolDC message]
  show "length (h' state0) = length (h state0)
          \<and> (\<forall>i. i \<noteq> 0 \<longrightarrow> i \<noteq> 2 \<longrightarrow> i \<noteq> 4 \<longrightarrow> h' state0 ! i = h state0 ! i)
          \<and> (\<forall>a. a \<noteq> state0 \<longrightarrow> h' a = h a)
          \<and> (\<forall>period st flag. r = Inr (period, st, flag) \<longrightarrow> period = period0)
          \<and> (\<forall>it L brk L'. iter_body P S mu state0 fix tolDC message it L = Inr (brk, L') \<longrightarrow>
               (\<exists>ferr d xii.
                   S [heap L state0 ! 0, heap L state0 ! 2, heap L state0 ! 4] ferr d = Inr xii
                 \<and> heap L' = (heap L)(state0 := (heap L state0)[0 := xii ! 0, 2 := xii ! 1, 4 := xii ! 2])
                 \<and> thalf L' = thalf L))"
    unfolding p by (intro conjI) (erule conjunct1 conjunct2 | assumption | drule conjunct2)+
qed

theorem free_variables_read_and_written_in_place_witness:
  "ssdc_periodic_xzplane toy_propagator toy_solver (\<lambda>a. [1, 0, 0, 0, 1, 0]) (1 / 100) 0 4 ''z'' (1 / 2) 3 False =
     (((\<lambda>a. [1, 0, 0, 0, 1, 0])(0 := [2, 0, 0, 0, 1, 0]), []), Inr (4, 0, 1))
   \<and> length (((\<lambda>a. [1, 0, 0, 0, 1, 0 :: real])(0 := [2, 0, 0, 0, 1, 0])) (0 :: addr)) = 6
   \<and> ((\<lambda>a. [1, 0, 0, 0, 1, 0 :: real])(0 := [2, 0, 0, 0, 1, 0])) (0 :: addr) ! 1 = [1, 0, 0, 0, 1, 0] ! 1
   \<and> ((\<lambda>a. [1, 0, 0, 0, 1, 0 :: real])(0 := [2, 0, 0, 0, 1, 0])) (0 :: addr) ! 2 = [1, 0, 0, 0, 1, 0] ! 2
   \<and> ((\<lambda>a. [1, 0, 0, 0, 1, 0 :: real])(0 := [2, 0, 0, 0, 1, 0])) (0 :: addr) ! 3 = [1, 0, 0, 0, 1, 0] ! 3
   \<and> ((\<lambda>a. [1, 0, 0, 0, 1, 0 :: real])(0 := [2, 0, 0, 0, 1, 0])) (0 :: addr) ! 5 = [1, 0, 0, 0, 1, 0] ! 5
   \<and> (\<exists>ferr d xii.
         toy_solver [1, 1, 2] ferr d = Inr xii
       \<and> (\<lambda>a. [1, 0, 0, 0, 1, 0 :: real])(0 := [2, 0, 0, 0, 1, 0]) =
           (\<lambda>a. [1, 0, 0, 0, 1, 0])((0 :: addr) := [1, 0, 0, 0, 1, 0][0 := xii ! 0, 4 := xii ! 1])
       \<and> (2 :: real) = xii ! 2)
   \<and> ssdc_periodic_xzplane toy_propagator toy_solver (\<lambda>a. [1, 0, 0, 0, 1, 0]) (1 / 100) 0 4 ''period'' (1 / 2) 3 False =
     (((\<lambda>a. [1, 0, 0, 0, 1, 0])(0 := [2, 0, 0, 0, 1, 0]), []), Inr (4, 0, 1))
   \<and> ((\<lambda>a. [1, 0, 0, 0, 1, 0 :: real])(0 := [2, 0, 0, 0, 1, 0])) (0 :: addr) ! 1 = [1, 0, 0, 0, 1, 0] ! 1
   \<and> ((\<lambda>a. [1, 0, 0, 0, 1, 0 :: real])(0 := [2, 0, 0, 0, 1, 0])) (0 :: addr) ! 3 = [1, 0, 0, 0, 1, 0] ! 3
   \<and> ((\<lambda>a. [1, 0, 0, 0, 1, 0 :: real])(0 := [2, 0, 0, 0, 1, 0])) (0 :: addr) ! 5 = [1, 0, 0, 0, 1, 0] ! 5
   \<and> (\<exists>period st flag.
         Inr (4, 0, 1) = (Inr (period, st, flag) :: error + real \<times> addr \<times> int) \<and> period = 4)"
proof -
  let ?h = "\<lambda>a :: addr. [1, 0, 0, 0, 1, 0 :: real]"
  let ?L0 = "\<lparr>heap = ?h, out = [], thalf = 2, xi = None, df = None, conv_flag = 0\<rparr>"
  let ?L1 = "\<lparr>heap = ?h(0 := [2, 0, 0, 0, 1, 0]), out = [], thalf = 2,
              xi = Some [2, 1, 2], df = Some [[6, 10, 1], [18, 22, 2], [30, 34, 3]], conv_flag = 0\<rparr>"
  have rz: "ssdc_periodic_xzplane toy_propagator toy_solver ?h (1 / 100) 0 4 ''z'' (1 / 2) 3 False =
     ((?h(0 := [2, 0, 0, 0, 1, 0]), []), Inr (4, 0, 1))"
    by (simp add: toy_run_z)
  have rp: "ssdc_periodic_xzplane toy_propagator toy_solver ?h (1 / 100) 0 4 ''period'' (1 / 2) 3 False =
     ((?h(0 := [2, 0, 0, 0, 1, 0]), []), Inr (4, 0, 1))"
    by (simp add: toy_run)
  have b: "iter_body toy_propagator toy_solver (1 / 100) 0 ''z'' (1 / 2) False 0 ?L0 = Inr (False, ?L1)"
    by (simp add: toy_pass_z [where x = 1 and y = 0 and z = 0 and vx = 0 and vy = 1 and vz = 0])
  note Z = free_variables_read_and_written_in_place [OF rz, THEN conjunct1, rule_format, OF refl]
  note Pd = free_variables_read_and_written_in_place [OF rp, THEN conjunct2, rule_format, OF refl]
  from Z have "\<exists>ferr d xii.
                   toy_solver [heap ?L0 0 ! 0, heap ?L0 0 ! 4, thalf ?L0] ferr d = Inr xii
                 \<and> heap ?L1 = (heap ?L0)(0 := (heap ?L0 0)[0 := xii ! 0, 4 := xii ! 1])
                 \<and> thalf ?L1 = xii ! 2"
    using b by blast
  then have pz: "\<exists>ferr d xii.
         toy_solver [1, 1, 2] ferr d = Inr xii
       \<and> ?h(0 := [2, 0, 0, 0, 1, 0]) = ?h(0 := [1, 0, 0, 0, 1, 0][0 := xii ! 0, 4 := xii ! 1])
       \<and> (2 :: real) = xii ! 2"
    by simp
  from Pd have pp: "\<exists>period st flag.
         Inr (4, 0, 1) = (Inr (period, st, flag) :: error + real \<times> addr \<times> int) \<and> period = 4"
    by blast
  from Z Pd have "length ((?h(0 := [2, 0, 0, 0, 1, 0])) 0) = 6" by simp
  with rz rp pz pp show ?thesis by simp
qed

lemma ssdc_loop_last_pass:
  assumes "conv_flag L = 0"
    and "ssdc_loop P S mu state fix tolDC message n it L = (None, L')"
    and "0 < n"
  obtains k Lk brk where "k < n"
    and "ssdc_loop P S mu state fix tolDC message k it L = (None, Lk)"
    and "conv_flag Lk = 0"
    and "iter_body P S mu state fix tolDC message (it + k) Lk = Inr (brk, L')"
proof (cases "conv_flag L' = 1")
  case True
  from ssdc_loop_break [OF assms(1,2) True] that show ?thesis by blast
next
  case False
  then have z: "conv_flag L' = 0" using ssdc_loop_flag_range [OF assms(1,2)] by simp
  from assms(3) obtain m where n: "n = Suc m" by (cases n) simp_all
  have "m \<le> n" using n by simp
  from ssdc_loop_prefix [OF assms(1,2) z this] obtain Lm where
    lm: "ssdc_loop P S mu state fix tolDC message m it L = (None, Lm)" and fm: "conv_flag Lm = 0"
    by blast
  from ssdc_loop_pass [OF assms(1) lm fm assms(2) [unfolded n]]
  have "iter_body P S mu state fix tolDC message (it + m) Lm = Inr (conv_flag L' = 1, L')" .
  with lm fm n that [of m Lm "conv_flag L' = 1"] show ?thesis by simp
qed

lemma toy_run_one_pass:
  "ssdc_periodic_xzplane toy_propagator toy_solver (\<lambda>a. [1, 0, 0, 0, 1, 0]) mu 0 4 ''period'' 2 3 message =
   (((\<lambda>a. [1, 0, 0, 0, 1, 0])(0 := [2, 0, 0, 0, 1, 0]),
     if message then [Cleared 1 1] else []), Inr (4, 0, 1))"
  by (simp add: ssdc_periodic_xzplane_def entry_check_def getitem_def ssdc_main_def passes_def
      numeral_3_eq_3
      toy_pass_period [where x = 1 and y = 0 and z = 0 and vx = 0 and vy = 1 and vz = 0])

text \<open>
  Claim C1: the residual that is compared with \<open>tolDC\<close> comes from the propagation of the
  state as it was before the pass wrote its correction. When the routine returns with the
  flag 1 there is a pass \<open>k\<close>, reached after \<open>k\<close> passes that did not converge, whose
  propagation \<open>po\<close> of the variables \<open>Lk\<close> gave a residual \<open>ferr\<close> of norm below \<open>tolDC\<close>.
  The solver was applied once, to the free variables \<open>xv\<close> read from \<open>Lk\<close>, that residual
  and the matrix \<open>dv\<close> built from \<open>po\<close>; the returned array contents and half-period are
  those of \<open>Lk\<close> with its output \<open>xii\<close> written into the free-variable places, and no
  pass follows (\<open>k + 1\<close> passes are all that \<open>iter_max\<close> passes do). So what is returned
  is exactly one update ahead of the state that was propagated and tested.
\<close>

theorem converged_state_is_one_update_ahead:
  assumes "snd (ssdc_periodic_xzplane P S h mu state0 period0 fix tolDC iter_max message)
           = Inr (period, st, 1)"
  shows "\<exists>printed k Lk po ferr stm xv dv xii.
           entry_check h state0 = Inr printed \<and> k < nat iter_max
         \<and> passes P S h mu state0 period0 fix tolDC message printed k = (None, Lk)
         \<and> conv_flag Lk = 0
         \<and> P mu (heap Lk state0) (thalf Lk) = Inr po
         \<and> residual po = Inr ferr
         \<and> la_norm ferr < tolDC
         \<and> read_xi fix (heap Lk state0) (thalf Lk) (xi Lk) = Inr (Some xv)
         \<and> final_stm po = Inr stm
         \<and> jacobian fix stm po (df Lk) = Inr (Some dv)
         \<and> S xv ferr dv = Inr xii
         \<and> write_back fix (heap Lk) state0 (thalf Lk) xii =
             Inr (fst (fst (ssdc_periodic_xzplane P S h mu state0 period0 fix tolDC iter_max message)),
                  period / 2)
         \<and> (fix = ''z'' \<longrightarrow>
               xv = [heap Lk state0 ! 0, heap Lk state0 ! 4, thalf Lk]
             \<and> fst (fst (ssdc_periodic_xzplane P S h mu state0 period0 fix tolDC iter_max message)) =
                 (heap Lk)(state0 := (heap Lk state0)[0 := xii ! 0, 4 := xii ! 1])
             \<and> period / 2 = xii ! 2)
         \<and> (fix = ''period'' \<longrightarrow>
               xv = [heap Lk state0 ! 0, heap Lk state0 ! 2, heap Lk state0 ! 4]
             \<and> fst (fst (ssdc_periodic_xzplane P S h mu state0 period0 fix tolDC iter_max message)) =
                 (heap Lk)(state0 := (heap Lk state0)[0 := xii ! 0, 2 := xii ! 1, 4 := xii ! 2])
             \<and> period / 2 = thalf Lk)
         \<and> passes P S h mu state0 period0 fix tolDC message printed (nat iter_max) =
             passes P S h mu state0 period0 fix tolDC message printed (Suc k)
         \<and> st = state0"
proof -
  from assms obtain printed L where
    ec: "entry_check h state0 = Inr printed" and
    ps: "passes P S h mu state0 period0 fix tolDC message printed (nat iter_max) = (None, L)" and
    run: "ssdc_periodic_xzplane P S h mu state0 period0 fix tolDC iter_max message =
       ((heap L, out L), Inr (thalf L * 2, state0, conv_flag L))" and
    eqs: "period = thalf L * 2" "st = state0" "1 = conv_flag L"
    by (rule run_returns)
  let ?L0 = "\<lparr>heap = h, out = printed, thalf = period0 / 2, xi = None, df = None, conv_flag = 0\<rparr>"
  have f0: "conv_flag ?L0 = 0" by simp
  have lp: "ssdc_loop P S mu state0 fix tolDC message (nat iter_max) 0 ?L0 = (None, L)"
    using ps by (simp add: passes_def)
  from eqs have f1: "conv_flag L = 1" by simp
  from ssdc_loop_break [OF f0 lp f1] obtain k Lk where
    k: "k < nat iter_max" and
    pk: "ssdc_loop P S mu state0 fix tolDC message k 0 ?L0 = (None, Lk)" and
    fk: "conv_flag Lk = 0" and
    bk: "iter_body P S mu state0 fix tolDC message (0 + k) Lk = Inr (True, L)"
    by blast
  from bk obtain po xi1 ferr stm df1 xii h1 th1 where
    b: "P mu (heap Lk state0) (thalf Lk) = Inr po"
       "read_xi fix (heap Lk state0) (thalf Lk) (xi Lk) = Inr xi1"
       "residual po = Inr ferr"
       "final_stm po = Inr stm"
       "jacobian fix stm po (df Lk) = Inr df1"
       "call_ssdc S xi1 ferr df1 = Inr xii"
       "write_back fix (heap Lk) state0 (thalf Lk) xii = Inr (h1, th1)"
       "True = (la_norm ferr < tolDC)"
       "L = (if la_norm ferr < tolDC
           then Lk\<lparr>heap := h1,
                  out := out Lk @ (if message then [Cleared (0 + k + 1) (la_norm ferr)] else []),
                  thalf := th1, xi := xi1, df := df1, conv_flag := 1\<rparr>
           else Lk\<lparr>heap := h1,
                  out := out Lk @ (if message then [Current (0 + k + 1) (la_norm ferr)] else []),
                  thalf := th1, xi := Some xii, df := df1\<rparr>)"
    by (rule iter_body_Inr)
  from b(6) obtain xv dv where s: "xi1 = Some xv" "df1 = Some dv" "S xv ferr dv = Inr xii"
    by (rule call_ssdc_Inr)
  have hl: "heap L = h1" "thalf L = th1" using b(8,9) by (simp_all split: if_splits)
  have fh: "fst (fst (ssdc_periodic_xzplane P S h mu state0 period0 fix tolDC iter_max message)) = h1"
    using hl by (simp add: run)
  have p2: "period / 2 = th1" using eqs(1) hl by simp
  have wb: "write_back fix (heap Lk) state0 (thalf Lk) xii =
             Inr (fst (fst (ssdc_periodic_xzplane P S h mu state0 period0 fix tolDC iter_max message)),
                  period / 2)"
    using b(7) fh p2 by simp
  have Z: "fix = ''z'' \<longrightarrow>
               xv = [heap Lk state0 ! 0, heap Lk state0 ! 4, thalf Lk]
             \<and> fst (fst (ssdc_periodic_xzplane P S h mu state0 period0 fix tolDC iter_max message)) =
                 (heap Lk)(state0 := (heap Lk state0)[0 := xii ! 0, 4 := xii ! 1])
             \<and> period / 2 = xii ! 2"
  proof
    assume z: "fix = ''z''"
    from b(2) s(1) have "xv = [heap Lk state0 ! 0, heap Lk state0 ! 4, thalf Lk]"
      unfolding z by (simp add: read_xi_z)
    moreover from b(7) have "h1 = (heap Lk)(state0 := (heap Lk state0)[0 := xii ! 0, 4 := xii ! 1])"
      "th1 = xii ! 2"
      unfolding z by (simp_all add: write_back_z)
    ultimately show "xv = [heap Lk state0 ! 0, heap Lk state0 ! 4, thalf Lk]
             \<and> fst (fst (ssdc_periodic_xzplane P S h mu state0 period0 fix tolDC iter_max message)) =
                 (heap Lk)(state0 := (heap Lk state0)[0 := xii ! 0, 4 := xii ! 1])
             \<and> period / 2 = xii ! 2"
      unfolding fh p2 by simp
  qed
  have Pd: "fix = ''period'' \<longrightarrow>
               xv = [heap Lk state0 ! 0, heap Lk state0 ! 2, heap Lk state0 ! 4]
             \<and> fst (fst (ssdc_periodic_xzplane P S h mu state0 period0 fix tolDC iter_max message)) =
                 (heap Lk)(state0 := (heap Lk state0)[0 := xii ! 0, 2 := xii ! 1, 4 := xii ! 2])
             \<and> period / 2 = thalf Lk"
  proof
    assume p: "fix = ''period''"
    from b(2) s(1) have "xv = [heap Lk state0 ! 0, heap Lk state0 ! 2, heap Lk state0 ! 4]"
      unfolding p by (simp add: read_xi_period)
    moreover from b(7) have
      "h1 = (heap Lk)(state0 := (heap Lk state0)[0 := xii ! 0, 2 := xii ! 1, 4 := xii ! 2])"
      "th1 = thalf Lk"
      unfolding p by (simp_all add: write_back_period)
    ultimately show "xv = [heap Lk state0 ! 0, heap Lk state0 ! 2, heap Lk state0 ! 4]
             \<and> fst (fst (ssdc_periodic_xzplane P S h mu state0 period0 fix tolDC iter_max message)) =
                 (heap Lk)(state0 := (heap Lk state0)[0 := xii ! 0, 2 := xii ! 1, 4 := xii ! 2])
             \<and> period / 2 = thalf Lk"
      unfolding fh p2 by simp
  qed
  have pk': "passes P S h mu state0 period0 fix tolDC message printed k = (None, Lk)"
    using pk by (simp add: passes_def)
  have sk: "ssdc_loop P S mu state0 fix tolDC message (Suc k) 0 ?L0 = (None, L)"
    unfolding ssdc_loop_snoc [OF f0] using pk fk bk by simp
  have stop: "passes P S h mu state0 period0 fix tolDC message printed (nat iter_max) =
             passes P S h mu state0 period0 fix tolDC message printed (Suc k)"
    using ps sk by (simp add: passes_def)
  have x: "read_xi fix (heap Lk state0) (thalf Lk) (xi Lk) = Inr (Some xv)"
    "jacobian fix stm po (df Lk) = Inr (Some dv)"
    using b(2,5) s(1,2) by simp_all
  have lt: "la_norm ferr < tolDC" using b(8) by simp
  show ?thesis
    apply (rule exI [of _ printed], rule exI [of _ k], rule exI [of _ Lk], rule exI [of _ po],
        rule exI [of _ ferr], rule exI [of _ stm], rule exI [of _ xv], rule exI [of _ dv],
        rule exI [of _ xii])
    apply (intro conjI)
                  apply (rule ec k pk' fk b(1) b(3) lt x(1) b(4) x(2) s(3) wb Z Pd stop eqs(2))+
    done
qed

theorem converged_state_is_one_update_ahead_witness:
  "snd (ssdc_periodic_xzplane toy_propagator toy_solver (\<lambda>a. [1, 0, 0, 0, 1, 0]) (1 / 100) 0 4 ''period'' 2 3 False) = Inr (4, 0, 1)
   \<and> toy_propagator (1 / 100) [1, 0, 0, 0, 1, 0] (4 / 2) =
        Inr \<lparr>statef = [0, - 1, 0, 0, 0, 0], stms = map (\<lambda>k. [0, real k]) [0..<36],
             dstatef = [0, 1, 0, 2, 0, 3]\<rparr>
   \<and> la_norm [- 1, 0, 0] = 1
   \<and> toy_solver [1, 0, 1] [- 1, 0, 0] [[6, 8, 10], [18, 20, 22], [30, 32, 34]] = Inr [2, 0, 1]
   \<and> fst (fst (ssdc_periodic_xzplane toy_propagator toy_solver (\<lambda>a. [1, 0, 0, 0, 1, 0]) (1 / 100) 0 4 ''period'' 2 3 False)) 0 = [2, 0, 0, 0, 1, 0]
   \<and> (\<exists>printed k Lk po ferr stm xv dv xii.
           entry_check (\<lambda>a. [1, 0, 0, 0, 1, 0]) 0 = Inr printed \<and> k < nat 3
         \<and> passes toy_propagator toy_solver (\<lambda>a. [1, 0, 0, 0, 1, 0]) (1 / 100) 0 4 ''period'' 2 False printed k = (None, Lk)
         \<and> conv_flag Lk = 0
         \<and> toy_propagator (1 / 100) (heap Lk 0) (thalf Lk) = Inr po
         \<and> residual po = Inr ferr
         \<and> la_norm ferr < 2
         \<and> read_xi ''period'' (heap Lk 0) (thalf Lk) (xi Lk) = Inr (Some xv)
         \<and> final_stm po = Inr stm
         \<and> jacobian ''period'' stm po (df Lk) = Inr (Some dv)
         \<and> toy_solver xv ferr dv = Inr xii
         \<and> write_back ''period'' (heap Lk) 0 (thalf Lk) xii =
             Inr (fst (fst (ssdc_periodic_xzplane toy_propagator toy_solver (\<lambda>a. [1, 0, 0, 0, 1, 0]) (1 / 100) 0 4 ''period'' 2 3 False)),
                  4 / 2)
         \<and> (''period'' = ''z'' \<longrightarrow>
               xv = [heap Lk 0 ! 0, heap Lk 0 ! 4, thalf Lk]
             \<and> fst (fst (ssdc_periodic_xzplane toy_propagator toy_solver (\<lambda>a. [1, 0, 0, 0, 1, 0]) (1 / 100) 0 4 ''period'' 2 3 False)) =
                 (heap Lk)(0 := (heap Lk 0)[0 := xii ! 0, 4 := xii ! 1])
             \<and> 4 / 2 = xii ! 2)
         \<and> (''period'' = ''period'' \<longrightarrow>
               xv = [heap Lk 0 ! 0, heap Lk 0 ! 2, heap Lk 0 ! 4]
             \<and> fst (fst (ssdc_periodic_xzplane toy_propagator toy_solver (\<lambda>a. [1, 0, 0, 0, 1, 0]) (1 / 100) 0 4 ''period'' 2 3 False)) =
                 (heap Lk)(0 := (heap Lk 0)[0 := xii ! 0, 2 := xii ! 1, 4 := xii ! 2])
             \<and> 4 / 2 = thalf Lk)
         \<and> passes toy_propagator toy_solver (\<lambda>a. [1, 0, 0, 0, 1, 0]) (1 / 100) 0 4 ''period'' 2 False printed (nat 3) =
             passes toy_propagator toy_solver (\<lambda>a. [1, 0, 0, 0, 1, 0]) (1 / 100) 0 4 ''period'' 2 False printed (Suc k)
         \<and> (0 :: addr) = 0)"
proof -
  have r: "snd (ssdc_periodic_xzplane toy_propagator toy_solver (\<lambda>a. [1, 0, 0, 0, 1, 0]) (1 / 100) 0 4 ''period'' 2 3 False) = Inr (4, 0, 1)"
    by (simp add: toy_run_one_pass)
  have c: "toy_propagator (1 / 100) [1, 0, 0, 0, 1, 0] (4 / 2) =
        Inr \<lparr>statef = [0, - 1, 0, 0, 0, 0], stms = map (\<lambda>k. [0, real k]) [0..<36],
             dstatef = [0, 1, 0, 2, 0, 3]\<rparr>"
    "la_norm [- 1, 0, 0] = 1"
    "toy_solver [1, 0, 1] [- 1, 0, 0] [[6, 8, 10], [18, 20, 22], [30, 32, 34]] = Inr [2, 0, 1]"
    "fst (fst (ssdc_periodic_xzplane toy_propagator toy_solver (\<lambda>a. [1, 0, 0, 0, 1, 0]) (1 / 100) 0 4 ''period'' 2 3 False)) 0 = [2, 0, 0, 0, 1, 0]"
    by (simp_all add: toy_propagator_def toy_solver_def toy_run_one_pass)
  from r c converged_state_is_one_update_ahead [OF r]
  show ?thesis by (intro conjI)
qed

lemma final_stm_at2:
  assumes "final_stm po = Inr stm" and "r < 6" and "c < 6"
  shows "at2 stm r c = last (stms po ! (6 * r + c))"
proof -
  from assms(1) have len: "length (stms po) = 36"
    and stm: "stm = map (\<lambda>i. map (\<lambda>j. map last (stms po) ! (6 * i + j)) [0..<6]) [0..<6]"
    by (auto simp add: final_stm_def last_column_def reshape66_def bind_e_eq_Inr split: if_splits)
  from assms(2,3) have "6 * r + c < 36" by simp
  with len assms(2,3) show ?thesis by (simp add: stm at2_def)
qed

lemma residual_Inr:
  "residual po = Inr ferr \<longleftrightarrow> 5 < length (statef po) \<and> ferr = [statef po ! 1, statef po ! 3, statef po ! 5]"
  by (auto simp add: residual_def bind_e_eq_Inr getitem_Inr)

lemma jacobian_z:
  "jacobian ''z'' stm po old = Inr d \<longleftrightarrow>
     5 < length (dstatef po)
     \<and> d = Some [[at2 stm 1 0, at2 stm 1 4, dstatef po ! 1],
                 [at2 stm 3 0, at2 stm 3 4, dstatef po ! 3],
                 [at2 stm 5 0, at2 stm 5 4, dstatef po ! 5]]"
  by (auto simp add: jacobian_def bind_e_eq_Inr getitem_Inr)

lemma jacobian_period:
  "jacobian ''period'' stm po old = Inr d \<longleftrightarrow>
     d = Some [[at2 stm 1 0, at2 stm 1 2, at2 stm 1 4],
               [at2 stm 3 0, at2 stm 3 2, at2 stm 3 4],
               [at2 stm 5 0, at2 stm 5 2, at2 stm 5 4]]"
  by (auto simp add: jacobian_def)

lemma all_less_3: "(\<forall>i < (3 :: nat). Q i) \<longleftrightarrow> Q 0 \<and> Q 1 \<and> Q 2"
  by (auto simp add: numeral_3_eq_3 less_Suc_eq numeral_2_eq_2)

lemma completed_pass_matrix:
  assumes "iter_body P S mu state fix tolDC message it L = Inr (brk, L')"
  shows "\<exists>po stm D xv ferr xii.
           P mu (heap L state) (thalf L) = Inr po
         \<and> final_stm po = Inr stm
         \<and> (\<forall>r < 6. \<forall>c < 6. at2 stm r c = last (stms po ! (6 * r + c)))
         \<and> (fix = ''z'' \<longrightarrow>
               df L' = Some D \<and> S xv ferr D = Inr xii \<and> length D = 3
             \<and> (\<forall>i < 3. length (D ! i) = 3
                   \<and> D ! i ! 0 = at2 stm ([1, 3, 5] ! i) 0
                   \<and> D ! i ! 1 = at2 stm ([1, 3, 5] ! i) 4
                   \<and> D ! i ! 2 = dstatef po ! ([1, 3, 5] ! i)))
         \<and> (fix = ''period'' \<longrightarrow>
               df L' = Some D \<and> S xv ferr D = Inr xii \<and> length D = 3
             \<and> (\<forall>i < 3. length (D ! i) = 3
                   \<and> (\<forall>j < 3. D ! i ! j = at2 stm ([1, 3, 5] ! i) ([0, 2, 4] ! j))))"
proof -
  from assms obtain po xi1 ferr stm df1 xii h1 th1 where
    b: "P mu (heap L state) (thalf L) = Inr po"
       "final_stm po = Inr stm"
       "jacobian fix stm po (df L) = Inr df1"
       "call_ssdc S xi1 ferr df1 = Inr xii"
       "L' = (if la_norm ferr < tolDC
           then L\<lparr>heap := h1,
                  out := out L @ (if message then [Cleared (it + 1) (la_norm ferr)] else []),
                  thalf := th1, xi := xi1, df := df1, conv_flag := 1\<rparr>
           else L\<lparr>heap := h1,
                  out := out L @ (if message then [Current (it + 1) (la_norm ferr)] else []),
                  thalf := th1, xi := Some xii, df := df1\<rparr>)"
    by (rule iter_body_Inr)
  have dfL: "df L' = df1" using b(5) by (simp split: if_splits)
  from b(4) obtain xv D where s: "df1 = Some D" "S xv ferr D = Inr xii" by (rule call_ssdc_Inr)
  have at: "\<forall>r < 6. \<forall>c < 6. at2 stm r c = last (stms po ! (6 * r + c))"
    using final_stm_at2 [OF b(2)] by blast
  have Z: "fix = ''z'' \<longrightarrow>
               df L' = Some D \<and> S xv ferr D = Inr xii \<and> length D = 3
             \<and> (\<forall>i < 3. length (D ! i) = 3
                   \<and> D ! i ! 0 = at2 stm ([1, 3, 5] ! i) 0
                   \<and> D ! i ! 1 = at2 stm ([1, 3, 5] ! i) 4
                   \<and> D ! i ! 2 = dstatef po ! ([1, 3, 5] ! i))"
  proof
    assume z: "fix = ''z''"
    from b(3) s(1) have D: "D = [[at2 stm 1 0, at2 stm 1 4, dstatef po ! 1],
                 [at2 stm 3 0, at2 stm 3 4, dstatef po ! 3],
                 [at2 stm 5 0, at2 stm 5 4, dstatef po ! 5]]"
      unfolding z by (simp add: jacobian_z)
    have "\<forall>i < 3. length (D ! i) = 3
                   \<and> D ! i ! 0 = at2 stm ([1, 3, 5] ! i) 0
                   \<and> D ! i ! 1 = at2 stm ([1, 3, 5] ! i) 4
                   \<and> D ! i ! 2 = dstatef po ! ([1, 3, 5] ! i)"
      by (simp add: all_less_3 D)
    with dfL s D show "df L' = Some D \<and> S xv ferr D = Inr xii \<and> length D = 3
             \<and> (\<forall>i < 3. length (D ! i) = 3
                   \<and> D ! i ! 0 = at2 stm ([1, 3, 5] ! i) 0
                   \<and> D ! i ! 1 = at2 stm ([1, 3, 5] ! i) 4
                   \<and> D ! i ! 2 = dstatef po ! ([1, 3, 5] ! i))"
      by simp
  qed
  have Pd: "fix = ''period'' \<longrightarrow>
               df L' = Some D \<and> S xv ferr D = Inr xii \<and> length D = 3
             \<and> (\<forall>i < 3. length (D ! i) = 3
                   \<and> (\<forall>j < 3. D ! i ! j = at2 stm ([1, 3, 5] ! i) ([0, 2, 4] ! j)))"
  proof
    assume p: "fix = ''period''"
    from b(3) s(1) have D: "D = [[at2 stm 1 0, at2 stm 1 2, at2 stm 1 4],
               [at2 stm 3 0, at2 stm 3 2, at2 stm 3 4],
               [at2 stm 5 0, at2 stm 5 2, at2 stm 5 4]]"
      unfolding p by (simp add: jacobian_period)
    have "\<forall>i < 3. length (D ! i) = 3
                   \<and> (\<forall>j < 3. D ! i ! j = at2 stm ([1, 3, 5] ! i) ([0, 2, 4] ! j))"
      by (simp add: all_less_3 D)
    with dfL s D show "df L' = Some D \<and> S xv ferr D = Inr xii \<and> length D = 3
             \<and> (\<forall>i < 3. length (D ! i) = 3
                   \<and> (\<forall>j < 3. D ! i ! j = at2 stm ([1, 3, 5] ! i) ([0, 2, 4] ! j)))"
      by simp
  qed
  from b(1,2) at Z Pd show ?thesis by blast
qed

text \<open>
  Claim C3: the state-transition matrix \<open>stm\<close> of a pass is the last column of \<open>stms\<close>
  laid out row by row, so its entry \<open>(r, c)\<close> is the last entry of row \<open>6 r + c\<close> of
  \<open>stms\<close>. Whenever lines 49-56 build the matrix from it, that matrix has three rows, one
  for each of the final-state components 1, 3, 5: with \<open>fix = "z"\<close> row \<open>i\<close> is \<open>stm\<close> at
  columns 0 and 4 followed by component \<open>[1,3,5] ! i\<close> of \<open>dstatef\<close>; with
  \<open>fix = "period"\<close> it is \<open>stm\<close> at columns 0, 2, 4. In every completed pass this is the
  matrix \<open>D\<close> that was handed to the solver and is left in \<open>df\<close>, built from the
  propagation of that pass.
\<close>

theorem sensitivity_matrix_rows_and_columns:
  "(\<forall>po stm old d.
       final_stm po = Inr stm \<longrightarrow> jacobian fix stm po old = Inr d \<longrightarrow>
         (\<forall>r < 6. \<forall>c < 6. at2 stm r c = last (stms po ! (6 * r + c)))
       \<and> (fix = ''z'' \<longrightarrow>
            (\<exists>D. d = Some D \<and> length D = 3
               \<and> (\<forall>i < 3. length (D ! i) = 3
                     \<and> D ! i ! 0 = at2 stm ([1, 3, 5] ! i) 0
                     \<and> D ! i ! 1 = at2 stm ([1, 3, 5] ! i) 4
                     \<and> D ! i ! 2 = dstatef po ! ([1, 3, 5] ! i))))
       \<and> (fix = ''period'' \<longrightarrow>
            (\<exists>D. d = Some D \<and> length D = 3
               \<and> (\<forall>i < 3. length (D ! i) = 3
                     \<and> (\<forall>j < 3. D ! i ! j = at2 stm ([1, 3, 5] ! i) ([0, 2, 4] ! j))))))
   \<and> (\<forall>P S mu state tolDC message it L brk L'.
         iter_body P S mu state fix tolDC message it L = Inr (brk, L') \<longrightarrow>
         (\<exists>po stm D xv ferr xii.
             P mu (heap L state) (thalf L) = Inr po
           \<and> final_stm po = Inr stm
           \<and> (\<forall>r < 6. \<forall>c < 6. at2 stm r c = last (stms po ! (6 * r + c)))
           \<and> (fix = ''z'' \<longrightarrow>
                 df L' = Some D \<and> S xv ferr D = Inr xii \<and> length D = 3
               \<and> (\<forall>i < 3. length (D ! i) = 3
                     \<and> D ! i ! 0 = at2 stm ([1, 3, 5] ! i) 0
                     \<and> D ! i ! 1 = at2 stm ([1, 3, 5] ! i) 4
                     \<and> D ! i ! 2 = dstatef po ! ([1, 3, 5] ! i)))
           \<and> (fix = ''period'' \<longrightarrow>
                 df L' = Some D \<and> S xv ferr D = Inr xii \<and> length D = 3
               \<and> (\<forall>i < 3. length (D ! i) = 3
                     \<and> (\<forall>j < 3. D ! i ! j = at2 stm ([1, 3, 5] ! i) ([0, 2, 4] ! j))))))"
proof (rule conjI)
  show "\<forall>po stm old d.
       final_stm po = Inr stm \<longrightarrow> jacobian fix stm po old = Inr d \<longrightarrow>
         (\<forall>r < 6. \<forall>c < 6. at2 stm r c = last (stms po ! (6 * r + c)))
       \<and> (fix = ''z'' \<longrightarrow>
            (\<exists>D. d = Some D \<and> length D = 3
               \<and> (\<forall>i < 3. length (D ! i) = 3
                     \<and> D ! i ! 0 = at2 stm ([1, 3, 5] ! i) 0
                     \<and> D ! i ! 1 = at2 stm ([1, 3, 5] ! i) 4
                     \<and> D ! i ! 2 = dstatef po ! ([1, 3, 5] ! i))))
       \<and> (fix = ''period'' \<longrightarrow>
            (\<exists>D. d = Some D \<and> length D = 3
               \<and> (\<forall>i < 3. length (D ! i) = 3
                     \<and> (\<forall>j < 3. D ! i ! j = at2 stm ([1, 3, 5] ! i) ([0, 2, 4] ! j)))))"
  proof (intro allI impI conjI)
    fix po stm old d r c
    assume "final_stm po = Inr stm" and "r < (6 :: nat)" and "c < (6 :: nat)"
    then show "at2 stm r c = last (stms po ! (6 * r + c))" by (rule final_stm_at2)
  next
    fix po stm old d
    assume "jacobian fix stm po old = Inr d" and "fix = ''z''"
    then have "d = Some [[at2 stm 1 0, at2 stm 1 4, dstatef po ! 1],
                 [at2 stm 3 0, at2 stm 3 4, dstatef po ! 3],
                 [at2 stm 5 0, at2 stm 5 4, dstatef po ! 5]]"
      by (simp add: jacobian_z)
    then show "\<exists>D. d = Some D \<and> length D = 3
               \<and> (\<forall>i < 3. length (D ! i) = 3
                     \<and> D ! i ! 0 = at2 stm ([1, 3, 5] ! i) 0
                     \<and> D ! i ! 1 = at2 stm ([1, 3, 5] ! i) 4
                     \<and> D ! i ! 2 = dstatef po ! ([1, 3, 5] ! i))"
      by (simp add: all_less_3)
  next
    fix po stm old d
    assume "jacobian fix stm po old = Inr d" and "fix = ''period''"
    then have "d = Some [[at2 stm 1 0, at2 stm 1 2, at2 stm 1 4],
               [at2 stm 3 0, at2 stm 3 2, at2 stm 3 4],
               [at2 stm 5 0, at2 stm 5 2, at2 stm 5 4]]"
      by (simp add: jacobian_period)
    then show "\<exists>D. d = Some D \<and> length D = 3
               \<and> (\<forall>i < 3. length (D ! i) = 3
                     \<and> (\<forall>j < 3. D ! i ! j = at2 stm ([1, 3, 5] ! i) ([0, 2, 4] ! j)))"
      by (simp add: all_less_3)
  qed
  show "\<forall>P S mu state tolDC message it L brk L'.
         iter_body P S mu state fix tolDC message it L = Inr (brk, L') \<longrightarrow>
         (\<exists>po stm D xv ferr xii.
             P mu (heap L state) (thalf L) = Inr po
           \<and> final_stm po = Inr stm
           \<and> (\<forall>r < 6. \<forall>c < 6. at2 stm r c = last (stms po ! (6 * r + c)))
           \<and> (fix = ''z'' \<longrightarrow>
                 df L' = Some D \<and> S xv ferr D = Inr xii \<and> length D = 3
               \<and> (\<forall>i < 3. length (D ! i) = 3
                     \<and> D ! i ! 0 = at2 stm ([1, 3, 5] ! i) 0
                     \<and> D ! i ! 1 = at2 stm ([1, 3, 5] ! i) 4
                     \<and> D ! i ! 2 = dstatef po ! ([1, 3, 5] ! i)))
           \<and> (fix = ''period'' \<longrightarrow>
                 df L' = Some D \<and> S xv ferr D = Inr xii \<and> length D = 3
               \<and> (\<forall>i < 3. length (D ! i) = 3
                     \<and> (\<forall>j < 3. D ! i ! j = at2 stm ([1, 3, 5] ! i) ([0, 2, 4] ! j)))))"
    by (intro allI impI) (rule completed_pass_matrix)
qed

theorem sensitivity_matrix_rows_and_columns_witness:
  "iter_body toy_propagator toy_solver (1 / 100) 0 ''z'' (1 / 2) False 0
      (\<lparr>heap = \<lambda>a. [1, 0, 0, 0, 1, 0], out = [], thalf = 2, xi = None, df = None, conv_flag = 0\<rparr>) =
    Inr (False, \<lparr>heap = (\<lambda>a. [1, 0, 0, 0, 1, 0])(0 := [2, 0, 0, 0, 1, 0]), out = [], thalf = 2, xi = Some [2, 1, 2], df = Some [[6, 10, 1], [18, 22, 2], [30, 34, 3]], conv_flag = 0\<rparr>)
   \<and> (\<exists>po stm D xv ferr xii.
           toy_propagator (1 / 100) (heap (\<lparr>heap = \<lambda>a. [1, 0, 0, 0, 1, 0], out = [], thalf = 2, xi = None, df = None, conv_flag = 0\<rparr>) 0) (thalf (\<lparr>heap = \<lambda>a. [1, 0, 0, 0, 1, 0], out = [], thalf = 2, xi = None, df = None, conv_flag = 0\<rparr>)) = Inr po
         \<and> final_stm po = Inr stm
         \<and> (\<forall>r < 6. \<forall>c < 6. at2 stm r c = last (stms po ! (6 * r + c)))
         \<and> (''z'' = ''z'' \<longrightarrow>
               df (\<lparr>heap = (\<lambda>a. [1, 0, 0, 0, 1, 0])(0 := [2, 0, 0, 0, 1, 0]), out = [], thalf = 2, xi = Some [2, 1, 2], df = Some [[6, 10, 1], [18, 22, 2], [30, 34, 3]], conv_flag = 0\<rparr>) = Some D \<and> toy_solver xv ferr D = Inr xii \<and> length D = 3
             \<and> (\<forall>i < 3. length (D ! i) = 3
                   \<and> D ! i ! 0 = at2 stm ([1, 3, 5] ! i) 0
                   \<and> D ! i ! 1 = at2 stm ([1, 3, 5] ! i) 4
                   \<and> D ! i ! 2 = dstatef po ! ([1, 3, 5] ! i)))
         \<and> (''z'' = ''period'' \<longrightarrow>
               df (\<lparr>heap = (\<lambda>a. [1, 0, 0, 0, 1, 0])(0 := [2, 0, 0, 0, 1, 0]), out = [], thalf = 2, xi = Some [2, 1, 2], df = Some [[6, 10, 1], [18, 22, 2], [30, 34, 3]], conv_flag = 0\<rparr>) = Some D \<and> toy_solver xv ferr D = Inr xii \<and> length D = 3
             \<and> (\<forall>i < 3. length (D ! i) = 3
                   \<and> (\<forall>j < 3. D ! i ! j = at2 stm ([1, 3, 5] ! i) ([0, 2, 4] ! j)))))
   \<and> iter_body toy_propagator toy_solver (1 / 100) 0 ''period'' (1 / 2) False 0
      (\<lparr>heap = \<lambda>a. [1, 0, 0, 0, 1, 0], out = [], thalf = 2, xi = None, df = None, conv_flag = 0\<rparr>) =
    Inr (False, \<lparr>heap = (\<lambda>a. [1, 0, 0, 0, 1, 0])(0 := [2, 0, 0, 0, 1, 0]), out = [], thalf = 2, xi = Some [2, 0, 1], df = Some [[6, 8, 10], [18, 20, 22], [30, 32, 34]], conv_flag = 0\<rparr>)
   \<and> (\<exists>po stm D xv ferr xii.
           toy_propagator (1 / 100) (heap (\<lparr>heap = \<lambda>a. [1, 0, 0, 0, 1, 0], out = [], thalf = 2, xi = None, df = None, conv_flag = 0\<rparr>) 0) (thalf (\<lparr>heap = \<lambda>a. [1, 0, 0, 0, 1, 0], out = [], thalf = 2, xi = None, df = None, conv_flag = 0\<rparr>)) = Inr po
         \<and> final_stm po = Inr stm
         \<and> (\<forall>r < 6. \<forall>c < 6. at2 stm r c = last (stms po ! (6 * r + c)))
         \<and> (''period'' = ''z'' \<longrightarrow>
               df (\<lparr>heap = (\<lambda>a. [1, 0, 0, 0, 1, 0])(0 := [2, 0, 0, 0, 1, 0]), out = [], thalf = 2, xi = Some [2, 0, 1], df = Some [[6, 8, 10], [18, 20, 22], [30, 32, 34]], conv_flag = 0\<rparr>) = Some D \<and> toy_solver xv ferr D = Inr xii \<and> length D = 3
             \<and> (\<forall>i < 3. length (D ! i) = 3
                   \<and> D ! i ! 0 = at2 stm ([1, 3, 5] ! i) 0
                   \<and> D ! i ! 1 = at2 stm ([1, 3, 5] ! i) 4
                   \<and> D ! i ! 2 = dstatef po ! ([1, 3, 5] ! i)))
         \<and> (''period'' = ''period'' \<longrightarrow>
               df (\<lparr>heap = (\<lambda>a. [1, 0, 0, 0, 1, 0])(0 := [2, 0, 0, 0, 1, 0]), out = [], thalf = 2, xi = Some [2, 0, 1], df = Some [[6, 8, 10], [18, 20, 22], [30, 32, 34]], conv_flag = 0\<rparr>) = Some D \<and> toy_solver xv ferr D = Inr xii \<and> length D = 3
             \<and> (\<forall>i < 3. length (D ! i) = 3
                   \<and> (\<forall>j < 3. D ! i ! j = at2 stm ([1, 3, 5] ! i) ([0, 2, 4] ! j)))))"
proof -
  have bz: "iter_body toy_propagator toy_solver (1 / 100) 0 ''z'' (1 / 2) False 0
      (\<lparr>heap = \<lambda>a. [1, 0, 0, 0, 1, 0], out = [], thalf = 2, xi = None, df = None, conv_flag = 0\<rparr>) =
    Inr (False, \<lparr>heap = (\<lambda>a. [1, 0, 0, 0, 1, 0])(0 := [2, 0, 0, 0, 1, 0]), out = [], thalf = 2, xi = Some [2, 1, 2], df = Some [[6, 10, 1], [18, 22, 2], [30, 34, 3]], conv_flag = 0\<rparr>)"
    by (simp add: toy_pass_z [where x = 1 and y = 0 and z = 0 and vx = 0 and vy = 1 and vz = 0])
  have bp: "iter_body toy_propagator toy_solver (1 / 100) 0 ''period'' (1 / 2) False 0
      (\<lparr>heap = \<lambda>a. [1, 0, 0, 0, 1, 0], out = [], thalf = 2, xi = None, df = None, conv_flag = 0\<rparr>) =
    Inr (False, \<lparr>heap = (\<lambda>a. [1, 0, 0, 0, 1, 0])(0 := [2, 0, 0, 0, 1, 0]), out = [], thalf = 2, xi = Some [2, 0, 1], df = Some [[6, 8, 10], [18, 20, 22], [30, 32, 34]], conv_flag = 0\<rparr>)"
    by (simp add: toy_pass_period [where x = 1 and y = 0 and z = 0 and vx = 0 and vy = 1 and vz = 0])
  note T = sensitivity_matrix_rows_and_columns [THEN conjunct2, rule_format]
  from bz bp T [OF bz] T [OF bp]
  show ?thesis by (intro conjI)
qed

lemma completed_pass_residual:
  assumes "iter_body P S mu state fix tolDC message it L = Inr (brk, L')"
  shows "(\<exists>po ferr xv D xii.
           P mu (heap L state) (thalf L) = Inr po
         \<and> 5 < length (statef po)
         \<and> ferr = [statef po ! 1, statef po ! 3, statef po ! 5]
         \<and> residual po = Inr ferr
         \<and> S xv ferr D = Inr xii
         \<and> brk = (la_norm ferr < tolDC))
       \<and> (\<forall>M it' brk' M'.
             heap M state = heap L state \<longrightarrow> thalf M = thalf L \<longrightarrow>
             iter_body P S mu state fix tolDC message it' M = Inr (brk', M') \<longrightarrow> brk' = brk)"
proof (rule conjI)
  from assms obtain po xi1 ferr df1 xii where
    b: "P mu (heap L state) (thalf L) = Inr po"
       "residual po = Inr ferr"
       "call_ssdc S xi1 ferr df1 = Inr xii"
       "brk = (la_norm ferr < tolDC)"
    by (rule iter_body_Inr)
  from b(3) obtain xv D where s: "S xv ferr D = Inr xii" by (rule call_ssdc_Inr)
  from b(2) have "5 < length (statef po)" "ferr = [statef po ! 1, statef po ! 3, statef po ! 5]"
    by (simp_all add: residual_Inr)
  with b s show "\<exists>po ferr xv D xii.
           P mu (heap L state) (thalf L) = Inr po
         \<and> 5 < length (statef po)
         \<and> ferr = [statef po ! 1, statef po ! 3, statef po ! 5]
         \<and> residual po = Inr ferr
         \<and> S xv ferr D = Inr xii
         \<and> brk = (la_norm ferr < tolDC)"
    by blast
  show "\<forall>M it' brk' M'.
             heap M state = heap L state \<longrightarrow> thalf M = thalf L \<longrightarrow>
             iter_body P S mu state fix tolDC message it' M = Inr (brk', M') \<longrightarrow> brk' = brk"
  proof (intro allI impI)
    fix M it' brk' M'
    assume eq: "heap M state = heap L state" "thalf M = thalf L"
      and "iter_body P S mu state fix tolDC message it' M = Inr (brk', M')"
    then obtain po' ferr' where
      c: "P mu (heap M state) (thalf M) = Inr po'"
         "residual po' = Inr ferr'"
         "brk' = (la_norm ferr' < tolDC)"
      by (elim iter_body_Inr)
    from c(1) b(1) eq have "po' = po" by simp
    with c(2) b(2) have "ferr' = ferr" by simp
    with c(3) b(4) show "brk' = brk" by simp
  qed
qed

text \<open>
  Claim C7: line 45 makes the residual out of components 1, 3, 5 of \<open>statef\<close> of the
  propagation output it is given, in this order, and of nothing else (it raises when
  \<open>statef\<close> has fewer than six components). In every completed pass the residual that
  went to the solver and into the convergence test is the one line 45 makes of the
  propagation of that pass from the current state and half-period. Nothing is carried
  over: a pass from any other variables \<open>M\<close> with the same array contents and
  half-period (whatever \<open>xi\<close>, \<open>df\<close>, the flag, the output and the pass number are)
  takes the same decision.
\<close>

theorem residual_rebuilt_from_each_propagation:
  "(\<forall>po. residual po =
           (if 5 < length (statef po) then Inr [statef po ! 1, statef po ! 3, statef po ! 5]
            else Inl IndexError))
   \<and> (\<forall>P S mu state tolDC message it L brk L'.
         iter_body P S mu state fix tolDC message it L = Inr (brk, L') \<longrightarrow>
           (\<exists>po ferr xv D xii.
               P mu (heap L state) (thalf L) = Inr po
             \<and> 5 < length (statef po)
             \<and> ferr = [statef po ! 1, statef po ! 3, statef po ! 5]
             \<and> residual po = Inr ferr
             \<and> S xv ferr D = Inr xii
             \<and> brk = (la_norm ferr < tolDC))
         \<and> (\<forall>M it' brk' M'.
               heap M state = heap L state \<longrightarrow> thalf M = thalf L \<longrightarrow>
               iter_body P S mu state fix tolDC message it' M = Inr (brk', M') \<longrightarrow> brk' = brk))"
proof (rule conjI)
  show "\<forall>po. residual po =
           (if 5 < length (statef po) then Inr [statef po ! 1, statef po ! 3, statef po ! 5]
            else Inl IndexError)"
    by (simp add: residual_def getitem_def)
  show "\<forall>P S mu state tolDC message it L brk L'.
         iter_body P S mu state fix tolDC message it L = Inr (brk, L') \<longrightarrow>
           (\<exists>po ferr xv D xii.
               P mu (heap L state) (thalf L) = Inr po
             \<and> 5 < length (statef po)
             \<and> ferr = [statef po ! 1, statef po ! 3, statef po ! 5]
             \<and> residual po = Inr ferr
             \<and> S xv ferr D = Inr xii
             \<and> brk = (la_norm ferr < tolDC))
         \<and> (\<forall>M it' brk' M'.
               heap M state = heap L state \<longrightarrow> thalf M = thalf L \<longrightarrow>
               iter_body P S mu state fix tolDC message it' M = Inr (brk', M') \<longrightarrow> brk' = brk)"
    by (intro allI impI) (rule completed_pass_residual)
qed

theorem residual_rebuilt_from_each_propagation_witness:
  "iter_body toy_propagator toy_solver (1 / 100) 0 ''period'' (1 / 2) False 0
      (\<lparr>heap = \<lambda>a. [1, 0, 0, 0, 1, 0], out = [], thalf = 2, xi = None, df = None, conv_flag = 0\<rparr>) =
    Inr (False, \<lparr>heap = (\<lambda>a. [1, 0, 0, 0, 1, 0])(0 := [2, 0, 0, 0, 1, 0]), out = [], thalf = 2, xi = Some [2, 0, 1], df = Some [[6, 8, 10], [18, 20, 22], [30, 32, 34]], conv_flag = 0\<rparr>)
   \<and> (\<exists>po ferr xv D xii.
           toy_propagator (1 / 100) (heap (\<lparr>heap = \<lambda>a. [1, 0, 0, 0, 1, 0], out = [], thalf = 2, xi = None, df = None, conv_flag = 0\<rparr>) 0) (thalf (\<lparr>heap = \<lambda>a. [1, 0, 0, 0, 1, 0], out = [], thalf = 2, xi = None, df = None, conv_flag = 0\<rparr>)) = Inr po
         \<and> 5 < length (statef po)
         \<and> ferr = [statef po ! 1, statef po ! 3, statef po ! 5]
         \<and> residual po = Inr ferr
         \<and> toy_solver xv ferr D = Inr xii
         \<and> False = (la_norm ferr < 1 / 2))"
proof -
  have bp: "iter_body toy_propagator toy_solver (1 / 100) 0 ''period'' (1 / 2) False 0
      (\<lparr>heap = \<lambda>a. [1, 0, 0, 0, 1, 0], out = [], thalf = 2, xi = None, df = None, conv_flag = 0\<rparr>) =
    Inr (False, \<lparr>heap = (\<lambda>a. [1, 0, 0, 0, 1, 0])(0 := [2, 0, 0, 0, 1, 0]), out = [], thalf = 2, xi = Some [2, 0, 1], df = Some [[6, 8, 10], [18, 20, 22], [30, 32, 34]], conv_flag = 0\<rparr>)"
    by (simp add: toy_pass_period [where x = 1 and y = 0 and z = 0 and vx = 0 and vy = 1 and vz = 0])
  from bp residual_rebuilt_from_each_propagation [THEN conjunct2, rule_format, OF bp, THEN conjunct1]
  show ?thesis by (intro conjI)
qed

lemma iter_body_invalid_mode:
  assumes "fix \<noteq> ''z''" and "fix \<noteq> ''period''" and "xi L = None"
  shows "\<exists>e. iter_body P S mu state fix tolDC message it L = Inl e"
proof (cases "iter_body P S mu state fix tolDC message it L")
  case (Inl e)
  then show ?thesis by blast
next
  case (Inr p)
  obtain brk L' where "p = (brk, L')" by (cases p)
  with Inr have "iter_body P S mu state fix tolDC message it L = Inr (brk, L')" by simp
  then obtain xi1 ferr df1 xii where
    "read_xi fix (heap L state) (thalf L) (xi L) = Inr xi1"
    "call_ssdc S xi1 ferr df1 = Inr xii"
    by (rule iter_body_Inr)
  with assms show ?thesis by (simp add: read_xi_def call_ssdc_def)
qed

lemma iter_body_invalid_mode_unbound:
  assumes "fix \<noteq> ''z''" and "fix \<noteq> ''period''" and "xi L = None"
    and "P mu (heap L state) (thalf L) = Inr po"
    and "residual po = Inr ferr"
    and "final_stm po = Inr stm"
  shows "iter_body P S mu state fix tolDC message it L = Inl (UnboundLocalError ''xi'')"
  using assms by (simp add: iter_body_def read_xi_def jacobian_def call_ssdc_def)

text \<open>
  Claim C9: a \<open>fix\<close> that is neither \<open>"z"\<close> nor \<open>"period"\<close> is never checked. With
  \<open>iter_max \<le> 0\<close> the routine returns \<open>(period0, state0, 0)\<close> as for a valid mode. With
  \<open>iter_max \<ge> 1\<close> it never returns: the first pass raises, leaving the array as it was,
  and when the propagation of that pass delivers what lines 45-47 read (a final state
  with six components and 36 rows of \<open>stms\<close>) the error is the unbound variable \<open>xi\<close> at
  line 58. The state is one that has a y component for line 30 to read.
\<close>

theorem invalid_mode_is_not_rejected_up_front:
  assumes "fix \<noteq> ''z''" and "fix \<noteq> ''period''" and "1 < length (h state0)"
  shows "(iter_max \<le> 0 \<longrightarrow>
            snd (ssdc_periodic_xzplane P S h mu state0 period0 fix tolDC iter_max message)
              = Inr (period0, state0, 0)
          \<and> fst (fst (ssdc_periodic_xzplane P S h mu state0 period0 fix tolDC iter_max message)) = h)
       \<and> (1 \<le> iter_max \<longrightarrow>
            (\<exists>e. snd (ssdc_periodic_xzplane P S h mu state0 period0 fix tolDC iter_max message) = Inl e)
          \<and> fst (fst (ssdc_periodic_xzplane P S h mu state0 period0 fix tolDC iter_max message)) = h
          \<and> (\<forall>po ferr stm.
                P mu (h state0) (period0 / 2) = Inr po \<longrightarrow>
                residual po = Inr ferr \<longrightarrow>
                final_stm po = Inr stm \<longrightarrow>
                snd (ssdc_periodic_xzplane P S h mu state0 period0 fix tolDC iter_max message)
                  = Inl (UnboundLocalError ''xi'')))"
proof (rule conjI [OF impI impI])
  let ?pr = "if \<bar>h state0 ! 1\<bar> > 1 / 10 ^ 9 then [Warning] else []"
  let ?L0 = "\<lparr>heap = h, out = ?pr, thalf = period0 / 2, xi = None, df = None, conv_flag = 0\<rparr>"
  have run: "ssdc_periodic_xzplane P S h mu state0 period0 fix tolDC iter_max message =
     (case ssdc_loop P S mu state0 fix tolDC message (nat iter_max) 0 ?L0 of
           (Some e, L) \<Rightarrow> ((heap L, out L), Inl e)
         | (None, L) \<Rightarrow> ((heap L, out L), Inr (thalf L * 2, state0, conv_flag L)))"
    using assms(3) by (simp add: ssdc_periodic_xzplane_def entry_check_ok ssdc_main_def passes_def)
  {
    assume "iter_max \<le> 0"
    then have "nat iter_max = 0" by simp
    then show "snd (ssdc_periodic_xzplane P S h mu state0 period0 fix tolDC iter_max message)
              = Inr (period0, state0, 0)
          \<and> fst (fst (ssdc_periodic_xzplane P S h mu state0 period0 fix tolDC iter_max message)) = h"
      unfolding run by simp
  }
  {
    assume "1 \<le> iter_max"
    then obtain n where n: "nat iter_max = Suc n" by (cases "nat iter_max") simp_all
    have x0: "xi ?L0 = None" by simp
    obtain e where e: "iter_body P S mu state0 fix tolDC message 0 ?L0 = Inl e"
      using iter_body_invalid_mode [OF assms(1,2) x0] by blast
    have r: "ssdc_periodic_xzplane P S h mu state0 period0 fix tolDC iter_max message =
       ((h, ?pr), Inl e)"
      unfolding run n using e by simp
    have "\<forall>po ferr stm.
                P mu (h state0) (period0 / 2) = Inr po \<longrightarrow>
                residual po = Inr ferr \<longrightarrow>
                final_stm po = Inr stm \<longrightarrow>
                snd (ssdc_periodic_xzplane P S h mu state0 period0 fix tolDC iter_max message)
                  = Inl (UnboundLocalError ''xi'')"
    proof (intro allI impI)
      fix po ferr stm
      assume "P mu (h state0) (period0 / 2) = Inr po" "residual po = Inr ferr" "final_stm po = Inr stm"
      then have "iter_body P S mu state0 fix tolDC message 0 ?L0 = Inl (UnboundLocalError ''xi'')"
        by (intro iter_body_invalid_mode_unbound [OF assms(1,2) x0]) simp_all
      with e have "e = UnboundLocalError ''xi''" by simp
      with r show "snd (ssdc_periodic_xzplane P S h mu state0 period0 fix tolDC iter_max message)
                  = Inl (UnboundLocalError ''xi'')" by simp
    qed
    with r show "(\<exists>e. snd (ssdc_periodic_xzplane P S h mu state0 period0 fix tolDC iter_max message) = Inl e)
          \<and> fst (fst (ssdc_periodic_xzplane P S h mu state0 period0 fix tolDC iter_max message)) = h
          \<and> (\<forall>po ferr stm.
                P mu (h state0) (period0 / 2) = Inr po \<longrightarrow>
                residual po = Inr ferr \<longrightarrow>
                final_stm po = Inr stm \<longrightarrow>
                snd (ssdc_periodic_xzplane P S h mu state0 period0 fix tolDC iter_max message)
                  = Inl (UnboundLocalError ''xi''))"
      by simp
  }
qed

theorem invalid_mode_is_not_rejected_up_front_witness:
  "''amplitude'' \<noteq> ''z'' \<and> ''amplitude'' \<noteq> ''period''
   \<and> 1 < length ((\<lambda>a. [1, 0, 0, 0, 1, 0 :: real]) (0 :: addr))
   \<and> snd (ssdc_periodic_xzplane toy_propagator toy_solver (\<lambda>a. [1, 0, 0, 0, 1, 0]) (1 / 100) 0 4
            ''amplitude'' (1 / 2) 0 False) = Inr (4, 0, 0)
   \<and> toy_propagator (1 / 100) [1, 0, 0, 0, 1, 0] (4 / 2) =
        Inr \<lparr>statef = [0, - 1, 0, 0, 0, 0], stms = map (\<lambda>k. [0, real k]) [0..<36],
             dstatef = [0, 1, 0, 2, 0, 3]\<rparr>
   \<and> snd (ssdc_periodic_xzplane toy_propagator toy_solver (\<lambda>a. [1, 0, 0, 0, 1, 0]) (1 / 100) 0 4
            ''amplitude'' (1 / 2) 1 False) = Inl (UnboundLocalError ''xi'')"
proof -
  let ?h = "\<lambda>a :: addr. [1, 0, 0, 0, 1, 0 :: real]"
  let ?po = "\<lparr>statef = [0, - 1, 0, 0, 0, 0], stms = map (\<lambda>k. [0, real k]) [0..<36],
             dstatef = [0, 1, 0, 2, 0, 3]\<rparr>"
  have n1: "''amplitude'' \<noteq> ''z''" and n2: "''amplitude'' \<noteq> ''period''" by simp_all
  have len: "1 < length (?h 0)" by simp
  have po: "toy_propagator (1 / 100) (?h 0) (4 / 2) = Inr ?po"
    by (simp add: toy_propagator_def)
  have res: "residual ?po = Inr [- 1, 0, 0]"
    by (simp add: residual_Inr)
  note stm = final_stm_toy [of "[0, - 1, 0, 0, 0, 0]" "[0, 1, 0, 2, 0, 3]"]
  note T = invalid_mode_is_not_rejected_up_front [of "''amplitude''" ?h 0, OF n1 n2 len]
  have z: "snd (ssdc_periodic_xzplane toy_propagator toy_solver ?h (1 / 100) 0 4
            ''amplitude'' (1 / 2) 0 False) = Inr (4, 0, 0)"
    using T [of 0 toy_propagator toy_solver "1 / 100" 4 "1 / 2" False] by simp
  have u: "snd (ssdc_periodic_xzplane toy_propagator toy_solver ?h (1 / 100) 0 4
            ''amplitude'' (1 / 2) 1 False) = Inl (UnboundLocalError ''xi'')"
    using T [of 1 toy_propagator toy_solver "1 / 100" 4 "1 / 2" False,
        THEN conjunct2, rule_format, THEN conjunct2, THEN conjunct2, rule_format, OF _ po res stm]
    by simp
  from n1 n2 len z po u show ?thesis by simp
qed

lemma iter_body_out:
  "iter_body P S mu state fix tolDC message it (L\<lparr>out := pre @ out L\<rparr>) =
   (case iter_body P S mu state fix tolDC message it L of
      Inl e \<Rightarrow> Inl e
    | Inr (brk, L') \<Rightarrow> Inr (brk, L'\<lparr>out := pre @ out L'\<rparr>))"
  by (simp add: iter_body_def bind_e_def split: sum.splits prod.splits)

lemma ssdc_loop_out:
  "ssdc_loop P S mu state fix tolDC message n it (L\<lparr>out := pre @ out L\<rparr>) =
   (case ssdc_loop P S mu state fix tolDC message n it L of
      (r, L') \<Rightarrow> (r, L'\<lparr>out := pre @ out L'\<rparr>))"
proof (induction n arbitrary: it L)
  case 0
  show ?case by simp
next
  case (Suc n)
  show ?case
  proof (cases "iter_body P S mu state fix tolDC message it L")
    case (Inl e)
    then show ?thesis by (simp add: iter_body_out)
  next
    case (Inr p)
    obtain brk L1 where p: "p = (brk, L1)" by (cases p)
    show ?thesis
      using Inr p Suc.IH [of "Suc it" L1] by (simp add: iter_body_out)
  qed
qed

lemma ssdc_main_printed:
  "ssdc_main P S h mu state0 period0 fix tolDC iter_max message printed =
   (case ssdc_main P S h mu state0 period0 fix tolDC iter_max message [] of
      ((h', pr), r) \<Rightarrow> ((h', printed @ pr), r))"
proof -
  let ?L0 = "\<lparr>heap = h, out = [], thalf = period0 / 2, xi = None, df = None, conv_flag = 0\<rparr>"
  have "\<lparr>heap = h, out = printed, thalf = period0 / 2, xi = None, df = None, conv_flag = 0\<rparr>
        = ?L0\<lparr>out := printed @ out ?L0\<rparr>"
    by simp
  then have "passes P S h mu state0 period0 fix tolDC message printed (nat iter_max) =
        (case passes P S h mu state0 period0 fix tolDC message [] (nat iter_max) of
           (r, L') \<Rightarrow> (r, L'\<lparr>out := printed @ out L'\<rparr>))"
    unfolding passes_def Let_def by (simp only: ssdc_loop_out)
  then show ?thesis
    by (simp add: ssdc_main_def split: prod.splits option.splits)
qed

lemma toy_main_off_plane:
  "ssdc_main toy_propagator toy_solver (\<lambda>a. [1, 1 / 10 ^ 6, 0, 0, 1, 0]) mu 0 4 ''period'' (1 / 2) 3 False [] =
   (((\<lambda>a. [1, 1 / 10 ^ 6, 0, 0, 1, 0])(0 := [2, 1 / 10 ^ 6, 0, 0, 1, 0]), []), Inr (4, 0, 1))"
  by (simp add: ssdc_main_def passes_def numeral_3_eq_3
      toy_pass_period [where x = 1 and y = "1 / 10 ^ 6" and z = 0 and vx = 0 and vy = 1 and vz = 0]
      toy_pass_period [where x = 2 and y = "1 / 10 ^ 6" and z = 0 and vx = 0 and vy = 1 and vz = 0])

text \<open>
  Claim C8: the check of line 30 only prints. For an initial state whose y component is
  above \<open>1e-9\<close> in magnitude the run is the rest of the routine (\<open>ssdc_main\<close>, started
  with nothing printed) with the warning put in front of its output: the final heap and
  the error or returned triple are those of \<open>ssdc_main\<close>, which is also, warning apart,
  all that a run from a state at or below the threshold is. The proof rests on
  \<open>ssdc_loop_out\<close>: what has been printed never enters a pass.
\<close>

theorem warning_leaves_the_computation_unchanged:
  assumes "1 < length (h state0)"
  shows "(\<bar>h state0 ! 1\<bar> > 1 / 10 ^ 9 \<longrightarrow>
            ssdc_periodic_xzplane P S h mu state0 period0 fix tolDC iter_max message =
            (case ssdc_main P S h mu state0 period0 fix tolDC iter_max message [] of
               ((h', printed), r) \<Rightarrow> ((h', Warning # printed), r)))
       \<and> (\<not> \<bar>h state0 ! 1\<bar> > 1 / 10 ^ 9 \<longrightarrow>
            ssdc_periodic_xzplane P S h mu state0 period0 fix tolDC iter_max message =
            ssdc_main P S h mu state0 period0 fix tolDC iter_max message [])"
proof (rule conjI [OF impI impI])
  assume "\<bar>h state0 ! 1\<bar> > 1 / 10 ^ 9"
  with assms have "ssdc_periodic_xzplane P S h mu state0 period0 fix tolDC iter_max message =
     ssdc_main P S h mu state0 period0 fix tolDC iter_max message [Warning]"
    by (simp add: ssdc_periodic_xzplane_def entry_check_ok)
  also have "\<dots> = (case ssdc_main P S h mu state0 period0 fix tolDC iter_max message [] of
               ((h', printed), r) \<Rightarrow> ((h', Warning # printed), r))"
    by (subst ssdc_main_printed) simp
  finally show "ssdc_periodic_xzplane P S h mu state0 period0 fix tolDC iter_max message =
            (case ssdc_main P S h mu state0 period0 fix tolDC iter_max message [] of
               ((h', printed), r) \<Rightarrow> ((h', Warning # printed), r))" .
next
  assume "\<not> \<bar>h state0 ! 1\<bar> > 1 / 10 ^ 9"
  with assms show "ssdc_periodic_xzplane P S h mu state0 period0 fix tolDC iter_max message =
            ssdc_main P S h mu state0 period0 fix tolDC iter_max message []"
    by (simp add: ssdc_periodic_xzplane_def entry_check_ok)
qed

theorem warning_leaves_the_computation_unchanged_witness:
  "1 < length ((\<lambda>a. [1, 1 / 10 ^ 6, 0, 0, 1, 0 :: real]) (0 :: addr))
   \<and> \<bar>(\<lambda>a. [1, 1 / 10 ^ 6, 0, 0, 1, 0 :: real]) (0 :: addr) ! 1\<bar> > 1 / 10 ^ 9
   \<and> ssdc_periodic_xzplane toy_propagator toy_solver (\<lambda>a. [1, 1 / 10 ^ 6, 0, 0, 1, 0]) (1 / 100) 0 4
        ''period'' (1 / 2) 3 False =
      (((\<lambda>a. [1, 1 / 10 ^ 6, 0, 0, 1, 0])(0 := [2, 1 / 10 ^ 6, 0, 0, 1, 0]), [Warning]), Inr (4, 0, 1))
   \<and> 1 < length ((\<lambda>a. [1, 0, 0, 0, 1, 0 :: real]) (0 :: addr))
   \<and> \<not> \<bar>(\<lambda>a. [1, 0, 0, 0, 1, 0 :: real]) (0 :: addr) ! 1\<bar> > 1 / 10 ^ 9
   \<and> ssdc_periodic_xzplane toy_propagator toy_solver (\<lambda>a. [1, 0, 0, 0, 1, 0]) (1 / 100) 0 4
        ''period'' (1 / 2) 3 False =
      ssdc_main toy_propagator toy_solver (\<lambda>a. [1, 0, 0, 0, 1, 0]) (1 / 100) 0 4 ''period'' (1 / 2) 3 False []"
proof -
  let ?h1 = "\<lambda>a :: addr. [1, 1 / 10 ^ 6, 0, 0, 1, 0 :: real]"
  let ?h0 = "\<lambda>a :: addr. [1, 0, 0, 0, 1, 0 :: real]"
  have l1: "1 < length (?h1 0)" and l0: "1 < length (?h0 0)" by simp_all
  have y1: "\<bar>?h1 0 ! 1\<bar> > 1 / 10 ^ 9" by simp
  have y0: "\<not> \<bar>?h0 0 ! 1\<bar> > 1 / 10 ^ 9" by simp
  note above = warning_leaves_the_computation_unchanged [of ?h1 0, OF l1, THEN conjunct1, rule_format, OF y1]
  note below = warning_leaves_the_computation_unchanged [of ?h0 0, OF l0, THEN conjunct2, rule_format, OF y0]
  have a: "ssdc_periodic_xzplane toy_propagator toy_solver ?h1 (1 / 100) 0 4 ''period'' (1 / 2) 3 False =
      ((?h1(0 := [2, 1 / 10 ^ 6, 0, 0, 1, 0]), [Warning]), Inr (4, 0, 1))"
    unfolding above toy_main_off_plane by simp
  from l1 y1 a l0 y0 below [of toy_propagator toy_solver "1 / 100" 4 "''period''" "1 / 2" 3 False]
  show ?thesis by (intro conjI)
qed

lemma write_back_after_read:
  assumes "read_xi fix (h s) th old = Inr x" and "2 < length xii"
  shows "\<exists>h1 th1. write_back fix h s th xii = Inr (h1, th1)"
proof -
  consider "fix = ''z''" | "fix = ''period''" | "fix \<noteq> ''z''" "fix \<noteq> ''period''" by blast
  then show ?thesis
  proof cases
    case 1
    with assms show ?thesis by (simp add: read_xi_z write_back_z)
  next
    case 2
    with assms show ?thesis by (simp add: read_xi_period write_back_period)
  next
    case 3
    then show ?thesis by (simp add: write_back_def)
  qed
qed

lemma write_back_other:
  assumes "write_back fix h s th xii = Inr (h1, th1)"
  shows "(\<forall>a. a \<noteq> s \<longrightarrow> h1 a = h a) \<and> length (h1 s) = length (h s)"
proof -
  consider "fix = ''z''" | "fix = ''period''" | "fix \<noteq> ''z''" "fix \<noteq> ''period''" by blast
  then show ?thesis
  proof cases
    case 1
    with assms show ?thesis by (simp add: write_back_z)
  next
    case 2
    with assms show ?thesis by (simp add: write_back_period)
  next
    case 3
    with assms show ?thesis by (simp add: write_back_def)
  qed
qed

lemma ssdc_loop_other_arrays:
  assumes "ssdc_loop P S mu s fix tolDC message n it L = (r, L')"
  shows "(\<forall>a. a \<noteq> s \<longrightarrow> heap L' a = heap L a) \<and> length (heap L' s) = length (heap L s)"
proof (rule ssdc_loop_invariant [where R = "\<lambda>L L'. (\<forall>a. a \<noteq> s \<longrightarrow> heap L' a = heap L a)
       \<and> length (heap L' s) = length (heap L s)", OF _ _ _ assms])
  fix it L brk L'
  assume "iter_body P S mu s fix tolDC message it L = Inr (brk, L')"
  then obtain ferr xi1 df1 xii h1 th1 where
    w: "write_back fix (heap L) s (thalf L) xii = Inr (h1, th1)" and
    l: "L' = (if la_norm ferr < tolDC
           then L\<lparr>heap := h1,
                  out := out L @ (if message then [Cleared (it + 1) (la_norm ferr)] else []),
                  thalf := th1, xi := xi1, df := df1, conv_flag := 1\<rparr>
           else L\<lparr>heap := h1,
                  out := out L @ (if message then [Current (it + 1) (la_norm ferr)] else []),
                  thalf := th1, xi := Some xii, df := df1\<rparr>)"
    by (rule iter_body_Inr)
  from l have "heap L' = h1" by (simp split: if_splits)
  with write_back_other [OF w]
  show "(\<forall>a. a \<noteq> s \<longrightarrow> heap L' a = heap L a) \<and> length (heap L' s) = length (heap L s)"
    by simp
qed simp_all

text \<open>
  Claim C6 says that the caller's array holds its entry values after the routine has
  returned. It does not: line 34 binds \<open>state\<close> to the array \<open>state0\<close> names, so lines
  61-64 write into the caller's array. On the model problem the run returns with the
  flag 1 and the caller's array, \<open>(1, 0, 0, 0, 1, 0)\<close> at entry, holds
  \<open>(2, 0, 0, 0, 1, 0)\<close>.
\<close>

theorem callers_array_keeps_entry_values_counterexample:
  "snd (ssdc_periodic_xzplane toy_propagator toy_solver toy_heap (1 / 100) 0 4
          ''period'' (1 / 2) 3 False) = Inr (4, 0, 1)
   \<and> toy_heap 0 = [1, 0, 0, 0, 1, 0]
   \<and> fst (fst (ssdc_periodic_xzplane toy_propagator toy_solver toy_heap (1 / 100) 0 4
          ''period'' (1 / 2) 3 False)) 0 = [2, 0, 0, 0, 1, 0]
   \<and> fst (fst (ssdc_periodic_xzplane toy_propagator toy_solver toy_heap (1 / 100) 0 4
          ''period'' (1 / 2) 3 False)) 0 \<noteq> toy_heap 0"
  by (simp add: toy_heap_def toy_run)

lemma returning_loop_has_valid_mode:
  assumes "ssdc_loop P S mu state fix tolDC message n it L = (None, L')"
    and "0 < n" and "xi L = None"
  shows "fix = ''z'' \<or> fix = ''period''"
proof (rule ccontr)
  assume "\<not> (fix = ''z'' \<or> fix = ''period'')"
  then have nz: "fix \<noteq> ''z''" and np: "fix \<noteq> ''period''" by simp_all
  from iter_body_invalid_mode [OF nz np assms(3)] obtain e where
    "iter_body P S mu state fix tolDC message it L = Inl e" by blast
  moreover from assms(2) obtain m where "n = Suc m" by (cases n) simp_all
  ultimately show False using assms(1) by simp
qed

text \<open>
  Claim C6 as amended: the routine works on the caller's array itself. When it returns,
  the state it returns is the array \<open>state0\<close> names, which has kept its length, and no
  other array has changed. With \<open>iter_max \<le> 0\<close> nothing is written. With \<open>iter_max \<ge> 1\<close>
  the mode is one of the two valid ones (otherwise the routine would have raised), the
  array has at least five components and its contents are what the last completed pass
  wrote into it: the array as that pass found it with \<open>xii\<close> in places 0 and 4
  (\<open>fix = "z"\<close>) or 0, 2 and 4 (\<open>fix = "period"\<close>), where \<open>xii\<close> is the solver's output
  for the free variables, the residual and the matrix of that pass. So these places of
  the caller's array hold the solver's output. Only the half-period is a working copy.
\<close>

theorem corrected_state_is_written_into_callers_array:
  assumes "ssdc_periodic_xzplane P S h mu state0 period0 fix tolDC iter_max message =
           ((h', out'), Inr (period, st, flag))"
  shows "st = state0
       \<and> (\<exists>printed L. passes P S h mu state0 period0 fix tolDC message printed (nat iter_max) = (None, L)
            \<and> h' st = heap L state0 \<and> period = thalf L * 2)
       \<and> length (h' state0) = length (h state0)
       \<and> (\<forall>a. a \<noteq> state0 \<longrightarrow> h' a = h a)
       \<and> (iter_max \<le> 0 \<longrightarrow> h' = h)
       \<and> (1 \<le> iter_max \<longrightarrow>
            (\<exists>printed k Lk brk L po stm xv ferr dv xii.
                k < nat iter_max
              \<and> passes P S h mu state0 period0 fix tolDC message printed k = (None, Lk)
              \<and> conv_flag Lk = 0
              \<and> iter_body P S mu state0 fix tolDC message k Lk = Inr (brk, L)
              \<and> passes P S h mu state0 period0 fix tolDC message printed (nat iter_max) = (None, L)
              \<and> P mu (heap Lk state0) (thalf Lk) = Inr po
              \<and> residual po = Inr ferr
              \<and> read_xi fix (heap Lk state0) (thalf Lk) (xi Lk) = Inr (Some xv)
              \<and> final_stm po = Inr stm
              \<and> jacobian fix stm po (df Lk) = Inr (Some dv)
              \<and> S xv ferr dv = Inr xii
              \<and> 4 < length (h state0)
              \<and> (fix = ''z'' \<or> fix = ''period'')
              \<and> (fix = ''z'' \<longrightarrow>
                    h' state0 = (heap Lk state0)[0 := xii ! 0, 4 := xii ! 1]
                  \<and> h' state0 ! 0 = xii ! 0 \<and> h' state0 ! 4 = xii ! 1)
              \<and> (fix = ''period'' \<longrightarrow>
                    h' state0 = (heap Lk state0)[0 := xii ! 0, 2 := xii ! 1, 4 := xii ! 2]
                  \<and> h' state0 ! 0 = xii ! 0 \<and> h' state0 ! 2 = xii ! 1 \<and> h' state0 ! 4 = xii ! 2)))"
proof -
  from assms have "snd (ssdc_periodic_xzplane P S h mu state0 period0 fix tolDC iter_max message)
      = Inr (period, st, flag)" by simp
  then obtain printed L where
    ps: "passes P S h mu state0 period0 fix tolDC message printed (nat iter_max) = (None, L)" and
    run: "ssdc_periodic_xzplane P S h mu state0 period0 fix tolDC iter_max message =
       ((heap L, out L), Inr (thalf L * 2, state0, conv_flag L))" and
    eqs: "period = thalf L * 2" "st = state0"
    by (rule run_returns)
  from assms run have h': "h' = heap L" by simp
  let ?L0 = "\<lparr>heap = h, out = printed, thalf = period0 / 2, xi = None, df = None, conv_flag = 0\<rparr>"
  have f0: "conv_flag ?L0 = 0" and x0: "xi ?L0 = None" by simp_all
  have lp: "ssdc_loop P S mu state0 fix tolDC message (nat iter_max) 0 ?L0 = (None, L)"
    using ps by (simp add: passes_def)
  from ssdc_loop_other_arrays [OF lp]
  have fr: "(\<forall>a. a \<noteq> state0 \<longrightarrow> h' a = h a)" "length (h' state0) = length (h state0)"
    by (simp_all add: h')
  have c2: "\<exists>printed L. passes P S h mu state0 period0 fix tolDC message printed (nat iter_max) = (None, L)
            \<and> h' st = heap L state0 \<and> period = thalf L * 2"
    using ps eqs h' by blast
  have c5: "iter_max \<le> 0 \<longrightarrow> h' = h"
  proof
    assume "iter_max \<le> 0"
    then have "nat iter_max = 0" by simp
    with lp have "L = ?L0" by simp
    then have "heap L = h" by simp
    then show "h' = h" by (simp add: h')
  qed
  have c6: "1 \<le> iter_max \<longrightarrow>
            (\<exists>printed k Lk brk L po stm xv ferr dv xii.
                k < nat iter_max
              \<and> passes P S h mu state0 period0 fix tolDC message printed k = (None, Lk)
              \<and> conv_flag Lk = 0
              \<and> iter_body P S mu state0 fix tolDC message k Lk = Inr (brk, L)
              \<and> passes P S h mu state0 period0 fix tolDC message printed (nat iter_max) = (None, L)
              \<and> P mu (heap Lk state0) (thalf Lk) = Inr po
              \<and> residual po = Inr ferr
              \<and> read_xi fix (heap Lk state0) (thalf Lk) (xi Lk) = Inr (Some xv)
              \<and> final_stm po = Inr stm
              \<and> jacobian fix stm po (df Lk) = Inr (Some dv)
              \<and> S xv ferr dv = Inr xii
              \<and> 4 < length (h state0)
              \<and> (fix = ''z'' \<or> fix = ''period'')
              \<and> (fix = ''z'' \<longrightarrow>
                    h' state0 = (heap Lk state0)[0 := xii ! 0, 4 := xii ! 1]
                  \<and> h' state0 ! 0 = xii ! 0 \<and> h' state0 ! 4 = xii ! 1)
              \<and> (fix = ''period'' \<longrightarrow>
                    h' state0 = (heap Lk state0)[0 := xii ! 0, 2 := xii ! 1, 4 := xii ! 2]
                  \<and> h' state0 ! 0 = xii ! 0 \<and> h' state0 ! 2 = xii ! 1 \<and> h' state0 ! 4 = xii ! 2))"
  proof
    assume "1 \<le> iter_max"
    then have pos: "0 < nat iter_max" by simp
    from returning_loop_has_valid_mode [OF lp pos x0] have valid: "fix = ''z'' \<or> fix = ''period''" .
    from ssdc_loop_last_pass [OF f0 lp pos] obtain k Lk brk where
      k: "k < nat iter_max" and
      pk: "ssdc_loop P S mu state0 fix tolDC message k 0 ?L0 = (None, Lk)" and
      fk: "conv_flag Lk = 0" and
      bk: "iter_body P S mu state0 fix tolDC message (0 + k) Lk = Inr (brk, L)"
      by blast
    have pk': "passes P S h mu state0 period0 fix tolDC message printed k = (None, Lk)"
      using pk by (simp add: passes_def)
    have bk': "iter_body P S mu state0 fix tolDC message k Lk = Inr (brk, L)" using bk by simp
    from ssdc_loop_other_arrays [OF pk] have lk: "length (heap Lk state0) = length (h state0)" by simp
    from bk' obtain po xi1 ferr stm df1 xii h1 th1 where
      pr: "P mu (heap Lk state0) (thalf Lk) = Inr po"
         "residual po = Inr ferr"
         "final_stm po = Inr stm"
         "jacobian fix stm po (df Lk) = Inr df1" and
      b: "read_xi fix (heap Lk state0) (thalf Lk) (xi Lk) = Inr xi1"
         "call_ssdc S xi1 ferr df1 = Inr xii"
         "write_back fix (heap Lk) state0 (thalf Lk) xii = Inr (h1, th1)"
         "L = (if la_norm ferr < tolDC
           then Lk\<lparr>heap := h1,
                  out := out Lk @ (if message then [Cleared (k + 1) (la_norm ferr)] else []),
                  thalf := th1, xi := xi1, df := df1, conv_flag := 1\<rparr>
           else Lk\<lparr>heap := h1,
                  out := out Lk @ (if message then [Current (k + 1) (la_norm ferr)] else []),
                  thalf := th1, xi := Some xii, df := df1\<rparr>)"
      by (rule iter_body_Inr)
    from b(2) obtain xv dv where sv: "xi1 = Some xv" "df1 = Some dv" and s: "S xv ferr dv = Inr xii"
      by (rule call_ssdc_Inr)
    have tie: "read_xi fix (heap Lk state0) (thalf Lk) (xi Lk) = Inr (Some xv)"
      "jacobian fix stm po (df Lk) = Inr (Some dv)"
      using b(1) pr(4) sv by simp_all
    from b(4) have hl: "heap L = h1" by (simp split: if_splits)
    have len: "4 < length (h state0)"
      using valid b(1) lk by (auto simp add: read_xi_z read_xi_period)
    have lens: "0 < length (heap Lk state0)" "2 < length (heap Lk state0)" "4 < length (heap Lk state0)"
      using len lk by linarith+
    have Z: "fix = ''z'' \<longrightarrow>
                    h' state0 = (heap Lk state0)[0 := xii ! 0, 4 := xii ! 1]
                  \<and> h' state0 ! 0 = xii ! 0 \<and> h' state0 ! 4 = xii ! 1"
    proof
      assume z: "fix = ''z''"
      from b(3) have "h1 = (heap Lk)(state0 := (heap Lk state0)[0 := xii ! 0, 4 := xii ! 1])"
        unfolding z by (simp add: write_back_z)
      then have "h' state0 = (heap Lk state0)[0 := xii ! 0, 4 := xii ! 1]"
        by (simp add: h' hl)
      then show "h' state0 = (heap Lk state0)[0 := xii ! 0, 4 := xii ! 1]
                  \<and> h' state0 ! 0 = xii ! 0 \<and> h' state0 ! 4 = xii ! 1"
        using lens by simp
    qed
    have Pd: "fix = ''period'' \<longrightarrow>
                    h' state0 = (heap Lk state0)[0 := xii ! 0, 2 := xii ! 1, 4 := xii ! 2]
                  \<and> h' state0 ! 0 = xii ! 0 \<and> h' state0 ! 2 = xii ! 1 \<and> h' state0 ! 4 = xii ! 2"
    proof
      assume p: "fix = ''period''"
      from b(3) have "h1 = (heap Lk)(state0 := (heap Lk state0)[0 := xii ! 0, 2 := xii ! 1, 4 := xii ! 2])"
        unfolding p by (simp add: write_back_period)
      then have "h' state0 = (heap Lk state0)[0 := xii ! 0, 2 := xii ! 1, 4 := xii ! 2]"
        by (simp add: h' hl)
      then show "h' state0 = (heap Lk state0)[0 := xii ! 0, 2 := xii ! 1, 4 := xii ! 2]
                  \<and> h' state0 ! 0 = xii ! 0 \<and> h' state0 ! 2 = xii ! 1 \<and> h' state0 ! 4 = xii ! 2"
        using lens by simp
    qed
    show "\<exists>printed k Lk brk L po stm xv ferr dv xii.
                k < nat iter_max
              \<and> passes P S h mu state0 period0 fix tolDC message printed k = (None, Lk)
              \<and> conv_flag Lk = 0
              \<and> iter_body P S mu state0 fix tolDC message k Lk = Inr (brk, L)
              \<and> passes P S h mu state0 period0 fix tolDC message printed (nat iter_max) = (None, L)
              \<and> P mu (heap Lk state0) (thalf Lk) = Inr po
              \<and> residual po = Inr ferr
              \<and> read_xi fix (heap Lk state0) (thalf Lk) (xi Lk) = Inr (Some xv)
              \<and> final_stm po = Inr stm
              \<and> jacobian fix stm po (df Lk) = Inr (Some dv)
              \<and> S xv ferr dv = Inr xii
              \<and> 4 < length (h state0)
              \<and> (fix = ''z'' \<or> fix = ''period'')
              \<and> (fix = ''z'' \<longrightarrow>
                    h' state0 = (heap Lk state0)[0 := xii ! 0, 4 := xii ! 1]
                  \<and> h' state0 ! 0 = xii ! 0 \<and> h' state0 ! 4 = xii ! 1)
              \<and> (fix = ''period'' \<longrightarrow>
                    h' state0 = (heap Lk state0)[0 := xii ! 0, 2 := xii ! 1, 4 := xii ! 2]
                  \<and> h' state0 ! 0 = xii ! 0 \<and> h' state0 ! 2 = xii ! 1 \<and> h' state0 ! 4 = xii ! 2)"
      apply (rule exI [of _ printed], rule exI [of _ k], rule exI [of _ Lk], rule exI [of _ brk],
          rule exI [of _ L], rule exI [of _ po], rule exI [of _ stm], rule exI [of _ xv],
          rule exI [of _ ferr], rule exI [of _ dv], rule exI [of _ xii])
      apply (intro conjI)
               apply (rule k pk' fk bk' ps pr(1) pr(2) tie(1) pr(3) tie(2) s len valid Z Pd)+
      done
  qed
  show ?thesis
    apply (intro conjI)
         apply (rule eqs(2) c2 fr(2) fr(1) c5 c6)+
    done
qed

theorem corrected_state_is_written_into_callers_array_witness:
  "ssdc_periodic_xzplane toy_propagator toy_solver (\<lambda>a. [1, 0, 0, 0, 1, 0]) (1 / 100) 0 4 ''period'' 2 3 False =
     ((((\<lambda>a. [1, 0, 0, 0, 1, 0])(0 := [2, 0, 0, 0, 1, 0])), []), Inr (4, 0, 1))
   \<and> (\<exists>printed k Lk brk L po stm xv ferr dv xii.
                k < nat 3
              \<and> passes toy_propagator toy_solver (\<lambda>a. [1, 0, 0, 0, 1, 0]) (1 / 100) 0 4 ''period'' 2 False printed k = (None, Lk)
              \<and> conv_flag Lk = 0
              \<and> iter_body toy_propagator toy_solver (1 / 100) 0 ''period'' 2 False k Lk = Inr (brk, L)
              \<and> passes toy_propagator toy_solver (\<lambda>a. [1, 0, 0, 0, 1, 0]) (1 / 100) 0 4 ''period'' 2 False printed (nat 3) = (None, L)
              \<and> toy_propagator (1 / 100) (heap Lk 0) (thalf Lk) = Inr po
              \<and> residual po = Inr ferr
              \<and> read_xi ''period'' (heap Lk 0) (thalf Lk) (xi Lk) = Inr (Some xv)
              \<and> final_stm po = Inr stm
              \<and> jacobian ''period'' stm po (df Lk) = Inr (Some dv)
              \<and> toy_solver xv ferr dv = Inr xii
              \<and> 4 < length ((\<lambda>a. [1, 0, 0, 0, 1, 0 :: real]) (0 :: addr))
              \<and> (''period'' = ''z'' \<or> ''period'' = ''period'')
              \<and> (''period'' = ''z'' \<longrightarrow>
                    ((\<lambda>a :: addr. [1, 0, 0, 0, 1, 0])(0 := [2, 0, 0, 0, 1, 0])) 0 = (heap Lk 0)[0 := xii ! 0, 4 := xii ! 1]
                  \<and> ((\<lambda>a :: addr. [1, 0, 0, 0, 1, 0])(0 := [2, 0, 0, 0, 1, 0])) 0 ! 0 = xii ! 0 \<and> ((\<lambda>a :: addr. [1, 0, 0, 0, 1, 0])(0 := [2, 0, 0, 0, 1, 0])) 0 ! 4 = xii ! 1)
              \<and> (''period'' = ''period'' \<longrightarrow>
                    ((\<lambda>a :: addr. [1, 0, 0, 0, 1, 0])(0 := [2, 0, 0, 0, 1, 0])) 0 = (heap Lk 0)[0 := xii ! 0, 2 := xii ! 1, 4 := xii ! 2]
                  \<and> ((\<lambda>a :: addr. [1, 0, 0, 0, 1, 0])(0 := [2, 0, 0, 0, 1, 0])) 0 ! 0 = xii ! 0 \<and> ((\<lambda>a :: addr. [1, 0, 0, 0, 1, 0])(0 := [2, 0, 0, 0, 1, 0])) 0 ! 2 = xii ! 1 \<and> ((\<lambda>a :: addr. [1, 0, 0, 0, 1, 0])(0 := [2, 0, 0, 0, 1, 0])) 0 ! 4 = xii ! 2))
   \<and> ((\<lambda>a. [1, 0, 0, 0, 1, 0 :: real])(0 := [2, 0, 0, 0, 1, 0])) (5 :: addr) = (\<lambda>a. [1, 0, 0, 0, 1, 0]) (5 :: addr)
   \<and> ssdc_periodic_xzplane toy_propagator toy_solver (\<lambda>a. [1, 0, 0, 0, 1, 0]) (1 / 100) 0 4 ''z'' (1 / 2) 3 False =
     ((((\<lambda>a. [1, 0, 0, 0, 1, 0])(0 := [2, 0, 0, 0, 1, 0])), []), Inr (4, 0, 1))
   \<and> (\<exists>printed k Lk brk L po stm xv ferr dv xii.
                k < nat 3
              \<and> passes toy_propagator toy_solver (\<lambda>a. [1, 0, 0, 0, 1, 0]) (1 / 100) 0 4 ''z'' (1 / 2) False printed k = (None, Lk)
              \<and> conv_flag Lk = 0
              \<and> iter_body toy_propagator toy_solver (1 / 100) 0 ''z'' (1 / 2) False k Lk = Inr (brk, L)
              \<and> passes toy_propagator toy_solver (\<lambda>a. [1, 0, 0, 0, 1, 0]) (1 / 100) 0 4 ''z'' (1 / 2) False printed (nat 3) = (None, L)
              \<and> toy_propagator (1 / 100) (heap Lk 0) (thalf Lk) = Inr po
              \<and> residual po = Inr ferr
              \<and> read_xi ''z'' (heap Lk 0) (thalf Lk) (xi Lk) = Inr (Some xv)
              \<and> final_stm po = Inr stm
              \<and> jacobian ''z'' stm po (df Lk) = Inr (Some dv)
              \<and> toy_solver xv ferr dv = Inr xii
              \<and> 4 < length ((\<lambda>a. [1, 0, 0, 0, 1, 0 :: real]) (0 :: addr))
              \<and> (''z'' = ''z'' \<or> ''z'' = ''period'')
              \<and> (''z'' = ''z'' \<longrightarrow>
                    ((\<lambda>a :: addr. [1, 0, 0, 0, 1, 0])(0 := [2, 0, 0, 0, 1, 0])) 0 = (heap Lk 0)[0 := xii ! 0, 4 := xii ! 1]
                  \<and> ((\<lambda>a :: addr. [1, 0, 0, 0, 1, 0])(0 := [2, 0, 0, 0, 1, 0])) 0 ! 0 = xii ! 0 \<and> ((\<lambda>a :: addr. [1, 0, 0, 0, 1, 0])(0 := [2, 0, 0, 0, 1, 0])) 0 ! 4 = xii ! 1)
              \<and> (''z'' = ''period'' \<longrightarrow>
                    ((\<lambda>a :: addr. [1, 0, 0, 0, 1, 0])(0 := [2, 0, 0, 0, 1, 0])) 0 = (heap Lk 0)[0 := xii ! 0, 2 := xii ! 1, 4 := xii ! 2]
                  \<and> ((\<lambda>a :: addr. [1, 0, 0, 0, 1, 0])(0 := [2, 0, 0, 0, 1, 0])) 0 ! 0 = xii ! 0 \<and> ((\<lambda>a :: addr. [1, 0, 0, 0, 1, 0])(0 := [2, 0, 0, 0, 1, 0])) 0 ! 2 = xii ! 1 \<and> ((\<lambda>a :: addr. [1, 0, 0, 0, 1, 0])(0 := [2, 0, 0, 0, 1, 0])) 0 ! 4 = xii ! 2))
   \<and> ssdc_periodic_xzplane toy_propagator toy_solver (\<lambda>a. [1, 0, 0, 0, 1, 0]) (1 / 100) 0 4 ''period'' 2 0 False =
     (((\<lambda>a. [1, 0, 0, 0, 1, 0]), []), Inr (4, 0, 0))"
proof -
  have rp: "ssdc_periodic_xzplane toy_propagator toy_solver (\<lambda>a. [1, 0, 0, 0, 1, 0]) (1 / 100) 0 4 ''period'' 2 3 False =
     ((((\<lambda>a. [1, 0, 0, 0, 1, 0])(0 := [2, 0, 0, 0, 1, 0])), []), Inr (4, 0, 1))"
    by (simp add: toy_run_one_pass)
  have rz: "ssdc_periodic_xzplane toy_propagator toy_solver (\<lambda>a. [1, 0, 0, 0, 1, 0]) (1 / 100) 0 4 ''z'' (1 / 2) 3 False =
     ((((\<lambda>a. [1, 0, 0, 0, 1, 0])(0 := [2, 0, 0, 0, 1, 0])), []), Inr (4, 0, 1))"
    by (simp add: toy_run_z)
  have r0: "ssdc_periodic_xzplane toy_propagator toy_solver (\<lambda>a. [1, 0, 0, 0, 1, 0]) (1 / 100) 0 4 ''period'' 2 0 False =
     (((\<lambda>a. [1, 0, 0, 0, 1, 0]), []), Inr (4, 0, 0))"
    by (simp add: ssdc_periodic_xzplane_def entry_check_def getitem_def ssdc_main_def passes_def)
  note Tp = corrected_state_is_written_into_callers_array [OF rp]
  note Tz = corrected_state_is_written_into_callers_array [OF rz]
  have le: "1 \<le> (3 :: int)" by simp
  note ep = Tp [THEN conjunct2, THEN conjunct2, THEN conjunct2, THEN conjunct2, THEN conjunct2, THEN mp, OF le]
  note ez = Tz [THEN conjunct2, THEN conjunct2, THEN conjunct2, THEN conjunct2, THEN conjunct2, THEN mp, OF le]
  have ne: "(5 :: addr) \<noteq> 0" by simp
  note fr = Tp [THEN conjunct2, THEN conjunct2, THEN conjunct2, THEN conjunct1, rule_format, OF ne]
  from rp ep fr rz ez r0 show ?thesis by (intro conjI)
qed

section \<open>The claim about get_period\<close>

lemma semiMajorAxis_example:
  "get_semiMajorAxis [1, 0, 0, 0, 1, 0] mu =
   (if mu = 0 then Inl ZeroDivisionError
    else if mu * (1 - (1 / mu - 1) ^ 2) = 0 then Inl ZeroDivisionError
    else Inr (1 / (mu * (1 - (1 / mu - 1) ^ 2))))"
  by (simp add: get_semiMajorAxis_def get_eccentricity_def position_velocity_def getitem_def
      cross_def py_div_def la_norm_def power2_eq_square)

text \<open>
  Claim C10: when \<open>get_semiMajorAxis\<close> yields a number \<open>a\<close>, \<open>get_period\<close> returns the
  sentinel \<open>-1\<close> if \<open>a\<close> is negative, raising nothing, and otherwise
  \<open>2 * pi * np.sqrt(a**3 / mu)\<close>: the real number \<open>2 * pi * sqrt (a ^ 3 / mu)\<close> when the radicand
  is not negative, and NaN (which is what \<open>np.sqrt\<close> gives, again without raising) when
  it is.
\<close>

theorem period_sentinel_for_negative_semimajor_axis:
  assumes "get_semiMajorAxis state mu = Inr a"
  shows "(a < 0 \<longrightarrow> get_period state mu = Inr (- 1))
       \<and> (\<not> a < 0 \<longrightarrow>
            (0 \<le> a ^ 3 / mu \<longrightarrow> get_period state mu = Inr (2 * pi * sqrt (a ^ 3 / mu)))
          \<and> (a ^ 3 / mu < 0 \<longrightarrow> get_period state mu = Inl NotANumber))"
  using assms by (simp add: get_period_def np_sqrt_def)

theorem period_sentinel_for_negative_semimajor_axis_witness:
  "get_semiMajorAxis [1, 0, 0, 0, 1, 0] (1 / 3) = Inr (- 1)
   \<and> get_period [1, 0, 0, 0, 1, 0] (1 / 3) = Inr (- 1)
   \<and> get_semiMajorAxis [1, 0, 0, 0, 1, 0] 1 = Inr 1
   \<and> get_period [1, 0, 0, 0, 1, 0] 1 = Inr (2 * pi)
   \<and> get_semiMajorAxis [1, 0, 0, 0, 1, 0] (- 1) = Inr (1 / 3)
   \<and> get_period [1, 0, 0, 0, 1, 0] (- 1) = Inl NotANumber"
proof -
  have a1: "get_semiMajorAxis [1, 0, 0, 0, 1, 0] (1 / 3) = Inr (- 1)"
    by (simp add: semiMajorAxis_example power2_eq_square)
  have a2: "get_semiMajorAxis [1, 0, 0, 0, 1, 0] 1 = Inr 1"
    by (simp add: semiMajorAxis_example)
  have a3: "get_semiMajorAxis [1, 0, 0, 0, 1, 0] (- 1) = Inr (1 / 3)"
    by (simp add: semiMajorAxis_example power2_eq_square)
  from period_sentinel_for_negative_semimajor_axis [OF a1]
  have p1: "get_period [1, 0, 0, 0, 1, 0] (1 / 3) = Inr (- 1)" by simp
  from period_sentinel_for_negative_semimajor_axis [OF a2]
  have p2: "get_period [1, 0, 0, 0, 1, 0] 1 = Inr (2 * pi)" by simp
  from period_sentinel_for_negative_semimajor_axis [OF a3]
  have p3: "get_period [1, 0, 0, 0, 1, 0] (- 1) = Inl NotANumber" by (simp add: power3_eq_cube)
  from a1 p1 a2 p2 a3 p3 show ?thesis by (intro conjI)
qed

end
